theory Spec2Isabelle
  imports Main
begin

section \<open>JavaScript values\<close>

text \<open>
  The service layer handles untyped JavaScript values (keys, request bodies, rows read
  from the database). An object is the list of its own enumerable properties in
  insertion order; an array is its elements together with the extra named properties
  that the code attaches to it (\<^verbatim>\<open>data['inlinecount'] = total\<close>). Numbers are
  integers here: the code only copies, compares with zero and tests the type of the
  numbers it sees. A value of this type stands for the object the program holds a
  reference to.
\<close>

datatype jsval =
    JUndefined
  | JNull
  | JBool bool
  | JNum int
  | JStr string
  | JObj "(string \<times> jsval) list"
  | JArr "jsval list" "(string \<times> jsval) list"

type_synonym props = "(string \<times> jsval) list"

datatype jstype = TUndefined | TObject | TBoolean | TNumber | TString

fun typeof :: "jsval \<Rightarrow> jstype" where
  "typeof JUndefined = TUndefined"
| "typeof JNull = TObject"
| "typeof (JBool b) = TBoolean"
| "typeof (JNum n) = TNumber"
| "typeof (JStr s) = TString"
| "typeof (JObj ps) = TObject"
| "typeof (JArr xs ps) = TObject"

text \<open>\<^verbatim>\<open>if (v)\<close>: the falsy values are undefined, null, false, 0 and the empty string.\<close>

fun truthy :: "jsval \<Rightarrow> bool" where
  "truthy JUndefined = False"
| "truthy JNull = False"
| "truthy (JBool b) = b"
| "truthy (JNum n) = (n \<noteq> 0)"
| "truthy (JStr s) = (s \<noteq> [])"
| "truthy (JObj ps) = True"
| "truthy (JArr xs ps) = True"

text \<open>
  \<^verbatim>\<open>isEmpty\<close> of the newdash library: nullish values, numbers and booleans are empty,
  a string or an array is empty when it has length 0, an object when it has no own
  enumerable property.
\<close>

fun isEmpty :: "jsval \<Rightarrow> bool" where
  "isEmpty JUndefined = True"
| "isEmpty JNull = True"
| "isEmpty (JBool b) = True"
| "isEmpty (JNum n) = True"
| "isEmpty (JStr s) = (s = [])"
| "isEmpty (JObj ps) = (ps = [])"
| "isEmpty (JArr xs ps) = (xs = [])"

fun isArray :: "jsval \<Rightarrow> bool" where
  "isArray (JArr xs ps) = True"
| "isArray v = False"

definition prop_has :: "props \<Rightarrow> string \<Rightarrow> bool" where
  "prop_has ps k = (map_of ps k \<noteq> None)"

definition prop_get :: "props \<Rightarrow> string \<Rightarrow> jsval" where
  "prop_get ps k = (case map_of ps k of None \<Rightarrow> JUndefined | Some v \<Rightarrow> v)"

fun prop_set :: "string \<Rightarrow> jsval \<Rightarrow> props \<Rightarrow> props" where
  "prop_set k v [] = [(k, v)]"
| "prop_set k v (p # ps) = (if fst p = k then (k, v) # ps else p # prop_set k v ps)"

definition prop_del :: "string \<Rightarrow> props \<Rightarrow> props" where
  "prop_del k ps = filter (\<lambda>p. fst p \<noteq> k) ps"

section \<open>Errors\<close>

text \<open>
  \<open>ResourceNotFoundError name key\<close> stands for the error whose message is
  \<^verbatim>\<open>Resource not found: name[key]\<close>; the other errors carry their message.
  \<open>TypeError\<close> is what the language raises on a property access or a destructuring of
  undefined or null; \<open>OtherError\<close> is any error a user-written hook rejects with.
\<close>

datatype error =
    ResourceNotFoundError string jsval
  | ServerInternalError string
  | TypeError string
  | Error string
  | OtherError string

text \<open>\<^verbatim>\<open>v[k]\<close> read and \<^verbatim>\<open>v[k] = x\<close> written on an arbitrary value (strict mode).\<close>

fun get_member :: "jsval \<Rightarrow> string \<Rightarrow> error + jsval" where
  "get_member JUndefined k = Inl (TypeError ''Cannot read properties of undefined'')"
| "get_member JNull k = Inl (TypeError ''Cannot read properties of null'')"
| "get_member (JObj ps) k = Inr (prop_get ps k)"
| "get_member (JArr xs ps) k = Inr (prop_get ps k)"
| "get_member v k = Inr JUndefined"

fun set_member :: "jsval \<Rightarrow> string \<Rightarrow> jsval \<Rightarrow> error + jsval" where
  "set_member (JObj ps) k x = Inr (JObj (prop_set k x ps))"
| "set_member (JArr xs ps) k x = Inr (JArr xs (prop_set k x ps))"
| "set_member v k x = Inl (TypeError ''Cannot set properties'')"

section \<open>Hooks and the state of a request\<close>

datatype HookType = beforeCreate | beforeUpdate | beforeDelete | afterLoad | afterSave

text \<open>
  The \<^verbatim>\<open>Partial<HookContext>\<close> object that the CRUD operations hand to
  \<^verbatim>\<open>_executeHooks\<close>. An absent field is \<open>None\<close> (or \<open>JUndefined\<close> for the two
  untyped fields). \<open>ctx_getService\<close> holds the entity type of the service whose
  \<^verbatim>\<open>_getService\<close> is bound; \<open>ctx_context\<close> and \<open>ctx_em\<close> are the fields that only
  \<^verbatim>\<open>TypedController\<close> uses.
\<close>

record hook_ctx =
  ctx_entityType :: "string option"
  ctx_hookType :: "HookType option"
  ctx_data :: jsval
  ctx_key :: jsval
  ctx_txContext :: "nat option"
  ctx_getService :: "string option"
  ctx_context :: "nat option"
  ctx_em :: "nat option"

text \<open>
  \<^verbatim>\<open>hook.execute(ctx)\<close> is an async method of a user-written hook processor: it returns
  a promise that is fulfilled or rejected, and it may change the world (the database and
  whatever else the hook touches), of type \<open>'w\<close>.
\<close>

datatype settled = Fulfilled | Rejected error

record 'w hook =
  hook_id :: nat
  execute :: "hook_ctx \<Rightarrow> 'w \<Rightarrow> settled \<times> 'w"

text \<open>
  The trace records, in program order, the repository calls a service issues, its
  calls of \<^verbatim>\<open>create\<close> on the service of another entity type, and what it does with
  each hook: awaited to fulfilment, awaited to a rejection, or dispatched and left
  running.
\<close>

datatype event =
    RepoFindOne jsval
  | RepoFind
  | RepoQuery string
  | RepoFindByIds "jsval list"
  | RepoInsert props
  | RepoSave props
  | RepoUpdate jsval props
  | RepoDelete jsval
  | ServiceCreate string jsval
  | HookAwaited HookType nat
  | HookRejected HookType nat error
  | HookDispatched HookType nat
  | ConsoleError error

text \<open>
  A dispatched hook is a promise with a \<^verbatim>\<open>.catch\<close> handler and nobody waiting for it:
  \<^verbatim>\<open>TypedService\<close> passes \<^verbatim>\<open>console.error\<close>, \<^verbatim>\<open>TypedController\<close> a handler with an
  empty body.
\<close>

datatype catch_handler = LogToConsole | Swallow

text \<open>
  \<open>unawaited\<close> holds the creations (entity type, item, transaction context) that a deep
  insert has started and that nobody awaits any more: those still running when
  \<^verbatim>\<open>Promise.all\<close> rejects or when the mapping callback throws.
\<close>

record 'w state =
  world :: 'w
  trace :: "event list"
  detached :: "('w hook \<times> hook_ctx \<times> catch_handler) list"
  unawaited :: "(string \<times> jsval \<times> nat option) list"

definition emit :: "event \<Rightarrow> 'w state \<Rightarrow> 'w state" where
  "emit e s = s\<lparr>trace := trace s @ [e]\<rparr>"

text \<open>
  The loop of \<^verbatim>\<open>_executeHooks\<close> over the array that \<^verbatim>\<open>findHooks\<close> returned, from
  index 0 upwards. For an event the hook is called and its promise only gets the catch
  handler; otherwise the promise is awaited, and a rejection leaves the loop as the
  error of \<^verbatim>\<open>_executeHooks\<close>. A dispatched hook is kept with the context it was
  called with; all of its work, also what an async function does before its first
  \<^verbatim>\<open>await\<close>, is placed at the time it settles.
\<close>

fun hooks_loop ::
  "catch_handler \<Rightarrow> bool \<Rightarrow> HookType \<Rightarrow> hook_ctx \<Rightarrow> 'w hook list \<Rightarrow> 'w state
    \<Rightarrow> (error + unit) \<times> 'w state" where
  "hooks_loop handler isEvent t ctx [] s = (Inr (), s)"
| "hooks_loop handler isEvent t ctx (h # hs) s =
     (if isEvent then
        hooks_loop handler isEvent t ctx hs
          (s\<lparr>trace := trace s @ [HookDispatched t (hook_id h)],
             detached := detached s @ [(h, ctx, handler)]\<rparr>)
      else
        (case execute h ctx (world s) of
           (Rejected e, w) \<Rightarrow>
             (Inl e, s\<lparr>world := w, trace := trace s @ [HookRejected t (hook_id h) e]\<rparr>)
         | (Fulfilled, w) \<Rightarrow>
             hooks_loop handler isEvent t ctx hs
               (s\<lparr>world := w, trace := trace s @ [HookAwaited t (hook_id h)]\<rparr>)))"



section \<open>The repository of the ORM\<close>

text \<open>
  The calls on the TypeORM repository that the services make, as functions of the
  world. Reads return a value; \<^verbatim>\<open>insert\<close> and \<^verbatim>\<open>save\<close> return the instance as they
  leave it (they fill in generated columns in place) with the new world. The calls are
  taken to answer: a failure of the database is not an outcome here. Getting hold of
  the connection, the query runner, the entity manager or the repository is not
  recorded.
\<close>

record 'w orm =
  repo_findOne :: "jsval \<Rightarrow> 'w \<Rightarrow> jsval"
  repo_find :: "'w \<Rightarrow> jsval list"
  repo_query :: "string \<Rightarrow> 'w \<Rightarrow> jsval list"
  repo_findByIds :: "jsval list \<Rightarrow> 'w \<Rightarrow> jsval list"
  repo_create :: "jsval \<Rightarrow> props"
  repo_insert :: "props \<Rightarrow> 'w \<Rightarrow> props \<times> 'w"
  repo_save :: "props \<Rightarrow> 'w \<Rightarrow> props \<times> 'w"
  repo_update :: "jsval \<Rightarrow> props \<Rightarrow> 'w \<Rightarrow> 'w"
  repo_delete :: "jsval \<Rightarrow> 'w \<Rightarrow> 'w"

section \<open>TypedService\<close>

text \<open>
  A navigation of the entity type, as \<^verbatim>\<open>getODataEntityNavigations\<close> returns it: the kind
  of relation (the source switches on the string), the entity type that
  \<^verbatim>\<open>options.entity()\<close> resolves to and the name of the foreign key.
\<close>

record navigation =
  nav_type :: string
  nav_entity :: string
  nav_foreignKey :: string

text \<open>
  What a \<^verbatim>\<open>TypedService\<close> instance reads from its decorators, from the modules
  \<^verbatim>\<open>./hooks\<close>, \<^verbatim>\<open>./db_helper\<close>, \<^verbatim>\<open>./decorators\<close> and from the libraries it calls;
  none of them is part of the sources at hand, so they are parameters:
  \<^item> \<open>svc_entityType\<close>: the name of \<^verbatim>\<open>this._getEntityType()\<close>; \<open>svc_keyName\<close>: the first
    of its key properties;
  \<^item> \<open>svc_HookEvents\<close>: the constant \<^verbatim>\<open>HookEvents\<close>; \<open>svc_findHooks\<close>: the array that
    \<^verbatim>\<open>findHooks(serverType, entityType, hookType)\<close> returns;
  \<^item> \<open>svc_edmType\<close> and \<open>svc_literalConvert\<close>: \<^verbatim>\<open>Edm.getType\<close> and \<^verbatim>\<open>Literal.convert\<close>;
  \<^item> \<open>svc_parseQuery\<close>: \<^verbatim>\<open>defaultParser.query\<close>; \<open>svc_buildSQL\<close>: the query statement and
    the count statement of \<^verbatim>\<open>helper.buildSQL\<close>; \<open>svc_parseInt\<close>: \<^verbatim>\<open>parseInt\<close>;
  \<^item> \<open>svc_navigations\<close>, \<open>svc_targetKeyName\<close> (the first key property of another entity
    type) and \<open>svc_getType\<close> (whether \<^verbatim>\<open>getType(entity, name, container)\<close> is truthy);
  \<^item> \<open>svc_serviceCreate\<close>: \<^verbatim>\<open>create\<close> of the service that \<^verbatim>\<open>_getService\<close> resolves for
    another entity type, from its call to the settling of its promise;
  \<^item> \<open>svc_settleOrder\<close>: the choice of the event loop, the order in which \<open>n\<close> creations
    that run at the same time settle, as indices into the array of their promises.
\<close>

record ('w, 'ast) service =
  svc_entityType :: string
  svc_keyName :: string
  svc_HookEvents :: "HookType list"
  svc_findHooks :: "HookType \<Rightarrow> 'w hook list"
  svc_orm :: "'w orm"
  svc_edmType :: "string \<Rightarrow> string option"
  svc_literalConvert :: "string \<Rightarrow> jsval \<Rightarrow> jsval"
  svc_parseQuery :: "string \<Rightarrow> 'ast"
  svc_buildSQL :: "'ast \<Rightarrow> string \<times> string option"
  svc_parseInt :: "string \<Rightarrow> jsval"
  svc_navigations :: "(string \<times> navigation) list"
  svc_targetKeyName :: "string \<Rightarrow> string"
  svc_getType :: "string \<Rightarrow> string \<Rightarrow> bool"
  svc_serviceCreate :: "string \<Rightarrow> jsval \<Rightarrow> nat option \<Rightarrow> 'w \<Rightarrow> (error + jsval) \<times> 'w"
  svc_settleOrder :: "nat \<Rightarrow> nat list"

definition empty_ctx :: hook_ctx where
  "empty_ctx =
     \<lparr>ctx_entityType = None, ctx_hookType = None, ctx_data = JUndefined, ctx_key = JUndefined,
      ctx_txContext = None, ctx_getService = None, ctx_context = None, ctx_em = None\<rparr>"

text \<open>\<^verbatim>\<open>TypedService._executeHooks\<close>.\<close>

definition executeHooks ::
  "('w, 'ast) service \<Rightarrow> hook_ctx \<Rightarrow> 'w state \<Rightarrow> (error + unit) \<times> 'w state" where
  "executeHooks svc ctx0 s =
     (let ctx1 = (if ctx_entityType ctx0 = None
                  then ctx0\<lparr>ctx_entityType := Some (svc_entityType svc)\<rparr> else ctx0)
      in case ctx_hookType ctx1 of
           None \<Rightarrow> (Inl (ServerInternalError ''Hook Type must be specify by controller''), s)
         | Some t \<Rightarrow>
             (let ctx2 = (if ctx_getService ctx1 = None
                          then ctx1\<lparr>ctx_getService := Some (svc_entityType svc)\<rparr> else ctx1);
                  isEvent = (t \<in> set (svc_HookEvents svc));
                  ctx3 = (if isEvent then ctx2\<lparr>ctx_txContext := None\<rparr> else ctx2);
                  hooks = svc_findHooks svc t
              in hooks_loop LogToConsole isEvent t ctx3 hooks s))"

text \<open>
  \<^verbatim>\<open>_transformInboundPayload\<close>: every property of the body whose name has an Edm type is
  converted in place.
\<close>

definition transformInboundPayload :: "('w, 'ast) service \<Rightarrow> jsval \<Rightarrow> jsval" where
  "transformInboundPayload svc body =
     (case body of
        JObj ps \<Rightarrow>
          JObj (map (\<lambda>(k, v). case svc_edmType svc k of
                                  Some ty \<Rightarrow> (k, svc_literalConvert svc ty v)
                                | None \<Rightarrow> (k, v)) ps)
      | _ \<Rightarrow> body)"

text \<open>\<^verbatim>\<open>TypedService.findOne\<close>.\<close>

definition findOne ::
  "('w, 'ast) service \<Rightarrow> jsval \<Rightarrow> nat option \<Rightarrow> 'w state \<Rightarrow> (error + jsval) \<times> 'w state" where
  "findOne svc key tx s =
     (if key \<noteq> JUndefined \<and> key \<noteq> JNull then
        (let s1 = emit (RepoFindOne key) s;
             data = repo_findOne (svc_orm svc) key (world s1)
         in if isEmpty data then
              (Inl (ResourceNotFoundError (svc_entityType svc) key), s1)
            else
              (case executeHooks svc
                      (empty_ctx\<lparr>ctx_txContext := tx, ctx_hookType := Some afterLoad,
                         ctx_data := data, ctx_entityType := Some (svc_entityType svc)\<rparr>) s1 of
                 (Inl e, s2) \<Rightarrow> (Inl e, s2)
               | (Inr u, s2) \<Rightarrow> (Inr data, s2)))
      else (Inr (JObj []), s))"

text \<open>
  The query argument of \<^verbatim>\<open>find\<close>: absent, a string, an \<^verbatim>\<open>ODataQueryParam\<close> (given by
  its \<^verbatim>\<open>toString()\<close>) or an already parsed query. \<open>parsed_query\<close> is \<open>None\<close> on the
  falsy arguments, which take the \<^verbatim>\<open>repo.find()\<close> branch.
\<close>

datatype 'ast query = QUndefined | QString string | QParam string | QAst 'ast

fun parsed_query :: "(string \<Rightarrow> 'ast) \<Rightarrow> 'ast query \<Rightarrow> 'ast option" where
  "parsed_query parse QUndefined = None"
| "parsed_query parse (QString q) = (if q = [] then None else Some (parse q))"
| "parsed_query parse (QParam q) = Some (parse q)"
| "parsed_query parse (QAst a) = Some a"

text \<open>\<^verbatim>\<open>data.map((item) => item.id)\<close>.\<close>

fun map_ids :: "jsval list \<Rightarrow> error + jsval list" where
  "map_ids [] = Inr []"
| "map_ids (item # items) =
     (case get_member item ''id'' of
        Inl e \<Rightarrow> Inl e
      | Inr v \<Rightarrow> (case map_ids items of Inl e \<Rightarrow> Inl e | Inr vs \<Rightarrow> Inr (v # vs)))"

text \<open>The destructuring \<^verbatim>\<open>[{ total }] = rows\<close>.\<close>

fun first_total :: "jsval list \<Rightarrow> error + jsval" where
  "first_total [] = Inl (TypeError ''Cannot destructure property total of undefined'')"
| "first_total (row # rows) =
     (case get_member row ''total'' of
        Inl e \<Rightarrow> Inl (TypeError ''Cannot destructure property total of null'')
      | Inr v \<Rightarrow> Inr v)"

text \<open>\<^verbatim>\<open>if (countStatement)\<close>: the statement when it is a non-empty string.\<close>

fun requested_count :: "string option \<Rightarrow> string option" where
  "requested_count None = None"
| "requested_count (Some c) = (if c = [] then None else Some c)"

text \<open>The part of \<^verbatim>\<open>TypedService.find\<close> that reads the data, up to the hooks.\<close>

definition find_data ::
  "('w, 'ast) service \<Rightarrow> 'ast query \<Rightarrow> 'w state \<Rightarrow> (error + jsval) \<times> 'w state" where
  "find_data svc query s =
     (case parsed_query (svc_parseQuery svc) query of
        Some ast \<Rightarrow>
          (case svc_buildSQL svc ast of
             (queryStatement, countStatement) \<Rightarrow>
               (let s1 = emit (RepoQuery queryStatement) s;
                    rows = repo_query (svc_orm svc) queryStatement (world s1)
                in case map_ids rows of
                     Inl e \<Rightarrow> (Inl e, s1)
                   | Inr ids \<Rightarrow>
                       (let s2 = emit (RepoFindByIds ids) s1;
                            data = repo_findByIds (svc_orm svc) ids (world s2)
                        in case requested_count countStatement of
                             Some c \<Rightarrow>
                               (let s3 = emit (RepoQuery c) s2
                                in case first_total (repo_query (svc_orm svc) c (world s3)) of
                                     Inl e \<Rightarrow> (Inl e, s3)
                                   | Inr tot \<Rightarrow>
                                       (Inr (JArr data
                                          [(''inlinecount'',
                                            (case tot of JStr str \<Rightarrow> svc_parseInt svc str
                                             | _ \<Rightarrow> tot))]), s3))
                           | None \<Rightarrow> (Inr (JArr data []), s2))))
      | None \<Rightarrow>
          (let s1 = emit RepoFind s
           in (Inr (JArr (repo_find (svc_orm svc) (world s1)) []), s1)))"

fun array_length :: "jsval \<Rightarrow> nat" where
  "array_length (JArr xs ps) = length xs"
| "array_length v = 0"

text \<open>\<^verbatim>\<open>TypedService.find\<close>.\<close>

definition find_svc ::
  "('w, 'ast) service \<Rightarrow> 'ast query \<Rightarrow> nat option \<Rightarrow> 'w state \<Rightarrow> (error + jsval) \<times> 'w state" where
  "find_svc svc query tx s =
     (case find_data svc query s of
        (Inl e, s1) \<Rightarrow> (Inl e, s1)
      | (Inr data, s1) \<Rightarrow>
          (if array_length data > 0 then
             (case executeHooks svc
                     (empty_ctx\<lparr>ctx_txContext := tx, ctx_hookType := Some afterLoad,
                        ctx_data := data\<rparr>) s1 of
                (Inl e, s2) \<Rightarrow> (Inl e, s2)
              | (Inr u, s2) \<Rightarrow> (Inr data, s2))
           else (Inr data, s1)))"

subsection \<open>Deep insert and the writing operations\<close>

text \<open>
  The \<^verbatim>\<open>OneToMany\<close> branch maps \<^verbatim>\<open>service.create\<close> over the items and awaits the
  array of promises with \<^verbatim>\<open>Promise.all\<close>.

  \<open>start_items\<close> is the \<^verbatim>\<open>map\<close>: in array order the callback sets the foreign key of
  an item and calls \<^verbatim>\<open>service.create\<close>, which returns a pending promise; no creation
  has done any work when \<^verbatim>\<open>map\<close> returns. When the assignment throws, \<^verbatim>\<open>map\<close> throws
  and the creations started so far are left running.
\<close>

fun start_items ::
  "string \<Rightarrow> string \<Rightarrow> jsval \<Rightarrow> nat option \<Rightarrow> jsval list \<Rightarrow> jsval list \<Rightarrow> 'w state
    \<Rightarrow> (error + jsval list) \<times> 'w state" where
  "start_items target fkName keyValue tx started [] s = (Inr started, s)"
| "start_items target fkName keyValue tx started (navigationItem # items) s =
     (case set_member navigationItem fkName keyValue of
        Inl e \<Rightarrow>
          (Inl e, s\<lparr>unawaited := unawaited s @ map (\<lambda>item. (target, item, tx)) started\<rparr>)
      | Inr item \<Rightarrow>
          start_items target fkName keyValue tx (started @ [item]) items
            (s\<lparr>trace := trace s @ [ServiceCreate target item]\<rparr>))"

text \<open>
  The order in which \<open>n\<close> promises settle, from the choice \<open>sched\<close> of the event loop:
  the indices that \<open>sched\<close> names, each once, and then the ones it does not name, so
  that every promise settles exactly once.
\<close>

definition settle_order :: "nat list \<Rightarrow> nat \<Rightarrow> nat list" where
  "settle_order sched n =
     remdups (filter (\<lambda>i. i < n) sched) @ filter (\<lambda>i. i \<notin> set sched) [0..<n]"

text \<open>
  \<open>settle_items\<close> is \<^verbatim>\<open>await Promise.all(promises)\<close>: the started creations settle in
  the given order, each changing the world when it does. The first rejection in time
  is the error of the \<^verbatim>\<open>await\<close>, and the creations that have not settled by then are
  left running; when all are fulfilled the result is the array of their values, in
  the order of the promises.
\<close>

fun settle_items ::
  "('w, 'ast) service \<Rightarrow> string \<Rightarrow> nat option \<Rightarrow> jsval list \<Rightarrow> nat list \<Rightarrow> jsval list \<Rightarrow> 'w state
    \<Rightarrow> (error + jsval list) \<times> 'w state" where
  "settle_items svc target tx started [] values s = (Inr values, s)"
| "settle_items svc target tx started (i # order) values s =
     (if i < length started then
        (case svc_serviceCreate svc target (started ! i) tx (world s) of
           (Inl e, w) \<Rightarrow>
             (Inl e, s\<lparr>world := w,
                       unawaited := unawaited s @
                         map (\<lambda>j. (target, started ! j, tx)) (filter (\<lambda>j. j < length started) order)\<rparr>)
         | (Inr v, w) \<Rightarrow>
             settle_items svc target tx started order (values[i := v]) (s\<lparr>world := w\<rparr>))
      else settle_items svc target tx started order values s)"

text \<open>
  One turn of the loop of \<^verbatim>\<open>_deepInsert\<close> over the navigations: the pair is
  \<^verbatim>\<open>reSaveRequired\<close> and the body, which the loop changes in place. In the last
  branch the created instance and \<^verbatim>\<open>body[navigationName]\<close> are one object, so that the
  foreign key written to the one shows in the other.
\<close>

definition deepInsert_step ::
  "('w, 'ast) service \<Rightarrow> nat option \<Rightarrow> string \<times> navigation \<Rightarrow> bool \<times> props \<Rightarrow> 'w state
    \<Rightarrow> (error + bool \<times> props) \<times> 'w state" where
  "deepInsert_step svc tx nav acc s =
     (case nav of (navigationName, options) \<Rightarrow>
      case acc of (reSaveRequired, body) \<Rightarrow>
        if prop_has body navigationName then
          (let navigationData = prop_get body navigationName;
               deepInsertElementType = nav_entity options;
               fkName = nav_foreignKey options;
               thisKeyName = svc_keyName svc;
               targetInstanceKeyName = svc_targetKeyName svc deepInsertElementType
           in if nav_type options = ''OneToMany'' then
                (case navigationData of
                   JArr items ps \<Rightarrow>
                     (case start_items deepInsertElementType fkName
                             (prop_get body thisKeyName) tx [] items s of
                        (Inl e, s1) \<Rightarrow> (Inl e, s1)
                      | (Inr started, s1) \<Rightarrow>
                          (case settle_items svc deepInsertElementType tx started
                                  (settle_order (svc_settleOrder svc (length started)) (length started))
                                  (replicate (length started) JUndefined) s1 of
                             (Inl e, s2) \<Rightarrow> (Inl e, s2)
                           | (Inr vs, s2) \<Rightarrow>
                               (Inr (reSaveRequired, prop_set navigationName (JArr vs []) body), s2)))
                 | _ \<Rightarrow>
                     (Inl (ServerInternalError
                        (''navigation property ['' @ navigationName @ ''] must be an array!'')), s))
              else if nav_type options = ''ManyToOne'' then
                (case svc_serviceCreate svc deepInsertElementType navigationData tx (world s) of
                   (r, w) \<Rightarrow>
                     (let s1 = s\<lparr>world := w,
                                  trace := trace s @ [ServiceCreate deepInsertElementType navigationData]\<rparr>
                      in case r of
                           Inl e \<Rightarrow> (Inl e, s1)
                         | Inr createdDeepInstance \<Rightarrow>
                             (let body1 = prop_set navigationName createdDeepInstance body
                              in case get_member createdDeepInstance targetInstanceKeyName of
                                   Inl e \<Rightarrow> (Inl e, s1)
                                 | Inr v \<Rightarrow> (Inr (True, prop_set fkName v body1), s1))))
              else
                (case svc_serviceCreate svc deepInsertElementType navigationData tx (world s) of
                   (r, w) \<Rightarrow>
                     (let s1 = s\<lparr>world := w,
                                  trace := trace s @ [ServiceCreate deepInsertElementType navigationData]\<rparr>
                      in case r of
                           Inl e \<Rightarrow> (Inl e, s1)
                         | Inr createdDeepInstance2 \<Rightarrow>
                             (let body1 = prop_set navigationName createdDeepInstance2 body
                              in if svc_getType svc (svc_entityType svc) fkName then
                                   (case get_member createdDeepInstance2 targetInstanceKeyName of
                                      Inl e \<Rightarrow> (Inl e, s1)
                                    | Inr v \<Rightarrow> (Inr (True, prop_set fkName v body1), s1))
                                 else if svc_getType svc deepInsertElementType fkName then
                                   (case set_member createdDeepInstance2 fkName
                                           (prop_get body1 thisKeyName) of
                                      Inl e \<Rightarrow> (Inl e, s1)
                                    | Inr linked \<Rightarrow>
                                        (Inr (reSaveRequired, prop_set navigationName linked body1), s1))
                                 else
                                   (Inl (ServerInternalError
                                      (''fk '' @ fkName @ '' not existed on entity '' @
                                       svc_entityType svc @ '' or '' @ deepInsertElementType)), s1)))))
        else (Inr acc, s))"

fun deepInsert_loop ::
  "('w, 'ast) service \<Rightarrow> nat option \<Rightarrow> (string \<times> navigation) list \<Rightarrow> bool \<times> props \<Rightarrow> 'w state
    \<Rightarrow> (error + bool \<times> props) \<times> 'w state" where
  "deepInsert_loop svc tx [] acc s = (Inr acc, s)"
| "deepInsert_loop svc tx (nav # navs) acc s =
     (case deepInsert_step svc tx nav acc s of
        (Inl e, s1) \<Rightarrow> (Inl e, s1)
      | (Inr acc1, s1) \<Rightarrow> deepInsert_loop svc tx navs acc1 s1)"

text \<open>\<^verbatim>\<open>TypedService._deepInsert\<close>.\<close>

definition deepInsert ::
  "('w, 'ast) service \<Rightarrow> props \<Rightarrow> nat option \<Rightarrow> 'w state \<Rightarrow> (error + bool \<times> props) \<times> 'w state" where
  "deepInsert svc body tx s = deepInsert_loop svc tx (svc_navigations svc) (False, body) s"

text \<open>\<^verbatim>\<open>TypedService.create\<close>.\<close>

definition create ::
  "('w, 'ast) service \<Rightarrow> jsval \<Rightarrow> nat option \<Rightarrow> 'w state \<Rightarrow> (error + jsval) \<times> 'w state" where
  "create svc body tx s =
     (let instance = repo_create (svc_orm svc) (transformInboundPayload svc body)
      in case executeHooks svc
                (empty_ctx\<lparr>ctx_txContext := tx, ctx_hookType := Some beforeCreate,
                   ctx_data := JObj instance\<rparr>) s of
           (Inl e, s1) \<Rightarrow> (Inl e, s1)
         | (Inr u, s1) \<Rightarrow>
             (case repo_insert (svc_orm svc) instance (world s1) of
                (instance1, w1) \<Rightarrow>
                  (case deepInsert svc instance1 tx
                          (s1\<lparr>world := w1, trace := trace s1 @ [RepoInsert instance]\<rparr>) of
                     (Inl e, s2) \<Rightarrow> (Inl e, s2)
                   | (Inr (reSaveRequired, instance2), s2) \<Rightarrow>
                       (case (if reSaveRequired then
                                (case repo_save (svc_orm svc) instance2 (world s2) of
                                   (instance3, w3) \<Rightarrow>
                                     (instance3,
                                      s2\<lparr>world := w3, trace := trace s2 @ [RepoSave instance2]\<rparr>))
                              else (instance2, s2)) of
                          (instance3, s3) \<Rightarrow>
                            (case executeHooks svc
                                    (empty_ctx\<lparr>ctx_txContext := tx, ctx_hookType := Some afterSave,
                                       ctx_data := JObj instance3\<rparr>) s3 of
                               (Inl e, s4) \<Rightarrow> (Inl e, s4)
                             | (Inr u, s4) \<Rightarrow> (Inr (JObj instance3), s4))))))"

text \<open>\<^verbatim>\<open>TypedService.update\<close>; the method returns nothing.\<close>

definition update ::
  "('w, 'ast) service \<Rightarrow> jsval \<Rightarrow> jsval \<Rightarrow> nat option \<Rightarrow> 'w state \<Rightarrow> (error + jsval) \<times> 'w state" where
  "update svc key body tx s =
     (let instance = repo_create (svc_orm svc) (transformInboundPayload svc body)
      in case executeHooks svc
                (empty_ctx\<lparr>ctx_txContext := tx, ctx_hookType := Some beforeUpdate,
                   ctx_data := JObj instance, ctx_key := key\<rparr>) s of
           (Inl e, s1) \<Rightarrow> (Inl e, s1)
         | (Inr u, s1) \<Rightarrow>
             (let s2 = s1\<lparr>world := repo_update (svc_orm svc) key instance (world s1),
                          trace := trace s1 @ [RepoUpdate key instance]\<rparr>
              in case executeHooks svc
                        (empty_ctx\<lparr>ctx_txContext := tx, ctx_hookType := Some afterSave,
                           ctx_data := JObj instance, ctx_key := key\<rparr>) s2 of
                   (Inl e, s3) \<Rightarrow> (Inl e, s3)
                 | (Inr u, s3) \<Rightarrow> (Inr JUndefined, s3)))"

text \<open>\<^verbatim>\<open>TypedService.delete\<close>; the method returns nothing.\<close>

definition delete ::
  "('w, 'ast) service \<Rightarrow> jsval \<Rightarrow> nat option \<Rightarrow> 'w state \<Rightarrow> (error + jsval) \<times> 'w state" where
  "delete svc key tx s =
     (case executeHooks svc
              (empty_ctx\<lparr>ctx_txContext := tx, ctx_hookType := Some beforeDelete, ctx_key := key\<rparr>) s of
        (Inl e, s1) \<Rightarrow> (Inl e, s1)
      | (Inr u, s1) \<Rightarrow>
          (let s2 = s1\<lparr>world := repo_delete (svc_orm svc) key (world s1),
                       trace := trace s1 @ [RepoDelete key]\<rparr>
           in case executeHooks svc
                     (empty_ctx\<lparr>ctx_txContext := tx, ctx_hookType := Some afterSave,
                        ctx_key := key\<rparr>) s2 of
                (Inl e, s3) \<Rightarrow> (Inl e, s3)
              | (Inr u, s3) \<Rightarrow> (Inr JUndefined, s3)))"

text \<open>\<^verbatim>\<open>TypedService.save\<close>.\<close>

definition save ::
  "('w, 'ast) service \<Rightarrow> jsval \<Rightarrow> jsval \<Rightarrow> nat option \<Rightarrow> 'w state \<Rightarrow> (error + jsval) \<times> 'w state" where
  "save svc key body tx s =
     (if truthy key then
        (let s1 = emit (RepoFindOne key) s;
             item = repo_findOne (svc_orm svc) key (world s1)
         in if truthy item then update svc key body tx s1 else create svc body tx s1)
      else create svc body tx s)"

section \<open>TypedController\<close>

text \<open>
  The result of \<^verbatim>\<open>transformQueryAst\<close> (module \<^verbatim>\<open>./visitor\<close>): the selected fields, the
  SQL tail, the inline count flag and the where clause (empty when there is none).
\<close>

record query_parts =
  qp_selectedFields :: "string list"
  qp_sqlQuery :: string
  qp_count :: bool
  qp_where :: string

record ('w, 'ast) controller =
  ctl_elementType :: string
  ctl_tableName :: string
  ctl_HookEvents :: "HookType list"
  ctl_findHooks :: "HookType \<Rightarrow> 'w hook list"
  ctl_orm :: "'w orm"
  ctl_entityManager :: nat
  ctl_parseQuery :: "string \<Rightarrow> 'ast"
  ctl_transformQueryAst :: "'ast \<Rightarrow> query_parts"

text \<open>\<^verbatim>\<open>TypedController._executeHooks\<close>.\<close>

definition executeHooks_ctl ::
  "('w, 'ast) controller \<Rightarrow> hook_ctx \<Rightarrow> 'w state \<Rightarrow> (error + unit) \<times> 'w state" where
  "executeHooks_ctl ctl ctx0 s =
     (let ctx1 = (if ctx_entityType ctx0 = None
                  then ctx0\<lparr>ctx_entityType := Some (ctl_elementType ctl)\<rparr> else ctx0);
          ctx2 = (if ctx_em ctx1 = None
                  then ctx1\<lparr>ctx_em := Some (ctl_entityManager ctl)\<rparr> else ctx1)
      in case ctx_hookType ctx2 of
           None \<Rightarrow> (Inl (ServerInternalError ''Hook Type must be specify by controller''), s)
         | Some t \<Rightarrow>
             (let isEvent = (t \<in> set (ctl_HookEvents ctl));
                  hooks = ctl_findHooks ctl t
              in hooks_loop Swallow isEvent t ctx2 hooks s))"

text \<open>\<^verbatim>\<open>TypedController.findOne\<close>.\<close>

definition findOne_ctl ::
  "('w, 'ast) controller \<Rightarrow> jsval \<Rightarrow> nat option \<Rightarrow> 'w state \<Rightarrow> (error + jsval) \<times> 'w state" where
  "findOne_ctl ctl key context s =
     (let s1 = emit (RepoFindOne key) s;
          data = repo_findOne (ctl_orm ctl) key (world s1)
      in case executeHooks_ctl ctl
                (empty_ctx\<lparr>ctx_context := context, ctx_hookType := Some afterLoad,
                   ctx_data := data, ctx_entityType := Some (ctl_elementType ctl)\<rparr>) s1 of
           (Inl e, s2) \<Rightarrow> (Inl e, s2)
         | (Inr u, s2) \<Rightarrow> (Inr data, s2))"

text \<open>\<^verbatim>\<open>selectedFields.join(', ')\<close>.\<close>

fun join_with :: "string \<Rightarrow> string list \<Rightarrow> string" where
  "join_with sep [] = []"
| "join_with sep [x] = x"
| "join_with sep (x # y # ys) = x @ sep @ join_with sep (y # ys)"

text \<open>The part of \<^verbatim>\<open>TypedController.find\<close> that reads the data, up to the hooks.\<close>

definition find_data_ctl ::
  "('w, 'ast) controller \<Rightarrow> 'ast query \<Rightarrow> 'w state \<Rightarrow> (error + jsval) \<times> 'w state" where
  "find_data_ctl ctl query s =
     (case parsed_query (ctl_parseQuery ctl) query of
        Some ast \<Rightarrow>
          (let parts = ctl_transformQueryAst ctl ast;
               tableName = ctl_tableName ctl;
               sFields = (if length (qp_selectedFields parts) > 0
                          then join_with '', '' (qp_selectedFields parts) else ''*'');
               sql = ''select '' @ sFields @ '' from '' @ tableName @ '' '' @ qp_sqlQuery parts @ '';'';
               s1 = emit (RepoQuery sql) s;
               data = repo_query (ctl_orm ctl) sql (world s1)
           in if qp_count parts then
                (let sql2 = ''select count(1) as total from '' @ tableName @
                            (if qp_where parts \<noteq> [] then '' where '' @ qp_where parts else []);
                     s2 = emit (RepoQuery sql2) s1
                 in case first_total (repo_query (ctl_orm ctl) sql2 (world s2)) of
                      Inl e \<Rightarrow> (Inl e, s2)
                    | Inr tot \<Rightarrow> (Inr (JArr data [(''inlinecount'', tot)]), s2))
              else (Inr (JArr data []), s1))
      | None \<Rightarrow>
          (let s1 = emit RepoFind s
           in (Inr (JArr (repo_find (ctl_orm ctl) (world s1)) []), s1)))"

text \<open>\<^verbatim>\<open>TypedController.find\<close>.\<close>

definition find_ctl ::
  "('w, 'ast) controller \<Rightarrow> 'ast query \<Rightarrow> nat option \<Rightarrow> 'w state \<Rightarrow> (error + jsval) \<times> 'w state" where
  "find_ctl ctl query context s =
     (case find_data_ctl ctl query s of
        (Inl e, s1) \<Rightarrow> (Inl e, s1)
      | (Inr data, s1) \<Rightarrow>
          (case executeHooks_ctl ctl
                  (empty_ctx\<lparr>ctx_context := context, ctx_hookType := Some afterLoad,
                     ctx_data := data\<rparr>) s1 of
             (Inl e, s2) \<Rightarrow> (Inl e, s2)
           | (Inr u, s2) \<Rightarrow> (Inr data, s2)))"

subsection \<open>The registry of controllers\<close>

text \<open>
  \<^verbatim>\<open>entityControllers\<close> is a module-level \<^verbatim>\<open>Map\<close>; the functions take it and
  \<^verbatim>\<open>registerController\<close> returns it as it leaves it. \<^verbatim>\<open>getControllerInstance\<close> is
  imported from \<^verbatim>\<open>../controller\<close> and is a parameter; it receives what \<^verbatim>\<open>Map.get\<close>
  returns, \<open>None\<close> for undefined.
\<close>

definition registerController ::
  "'e \<Rightarrow> 'c \<Rightarrow> ('e \<rightharpoonup> 'c) \<Rightarrow> (error + unit) \<times> ('e \<rightharpoonup> 'c)" where
  "registerController entity ctrl entityControllers =
     (if entityControllers entity \<noteq> None then
        (Inl (Error ''the controller has been generated for entity. (one entity - one controller)''),
         entityControllers)
      else (Inr (), entityControllers(entity \<mapsto> ctrl)))"

definition getEntityController ::
  "('c option \<Rightarrow> 'i) \<Rightarrow> 'e \<Rightarrow> ('e \<rightharpoonup> 'c) \<Rightarrow> 'i" where
  "getEntityController getControllerInstance entity entityControllers =
     getControllerInstance (entityControllers entity)"

section \<open>ODataResult\<close>

text \<open>
  \<open>elementType\<close> is \<^verbatim>\<open>result.constructor\<close>: the constructor of the value's class, or
  the value of an own property of that name.
\<close>

datatype ctor = CObject | CArray | CBoolean | CNumber | CString | COwn jsval

fun constructor_of :: "jsval \<Rightarrow> ctor option" where
  "constructor_of JUndefined = None"
| "constructor_of JNull = None"
| "constructor_of (JBool b) = Some CBoolean"
| "constructor_of (JNum n) = Some CNumber"
| "constructor_of (JStr s) = Some CString"
| "constructor_of (JObj ps) =
     (if prop_has ps ''constructor''
      then (if truthy (prop_get ps ''constructor'') then Some (COwn (prop_get ps ''constructor'')) else None)
      else Some CObject)"
| "constructor_of (JArr xs ps) =
     (if prop_has ps ''constructor''
      then (if truthy (prop_get ps ''constructor'') then Some (COwn (prop_get ps ''constructor'')) else None)
      else Some CArray)"

record ODataResult =
  statusCode :: nat
  body :: jsval
  elementType :: "ctor option"
  contentType :: "string option"
  originalResult :: jsval

text \<open>The constructor \<^verbatim>\<open>new ODataResult(statusCode, contentType, result)\<close>.\<close>

definition new_ODataResult :: "nat \<Rightarrow> string option \<Rightarrow> jsval \<Rightarrow> ODataResult" where
  "new_ODataResult code ct result =
     (if typeof result \<noteq> TUndefined then
        \<lparr>statusCode = code, body = result,
         elementType = (if truthy result then constructor_of result else None),
         contentType = (case ct of
                          None \<Rightarrow> Some ''application/json''
                        | Some c \<Rightarrow> if c = [] then Some ''application/json'' else Some c),
         originalResult = result\<rparr>
      else
        \<lparr>statusCode = code, body = JUndefined, elementType = None, contentType = None,
         originalResult = result\<rparr>)"

text \<open>
  \<^verbatim>\<open>ODataResult.Ok\<close>, on a result that is no longer a promise. In the branch of the
  non-arrays \<^verbatim>\<open>inlinecount\<close> still has its initial value, undefined.
\<close>

definition Ok :: "jsval \<Rightarrow> string option \<Rightarrow> ODataResult" where
  "Ok result ct =
     (case result of
        JArr xs ps \<Rightarrow>
          (let counted = (typeof (prop_get ps ''inlinecount'') = TNumber);
               inlinecount = (if counted then prop_get ps ''inlinecount'' else JUndefined);
               arr = (if counted then JArr xs (prop_del ''inlinecount'' ps) else JArr xs ps);
               wrapped = [(''value'', arr)]
           in new_ODataResult 200 ct
                (JObj (if typeof inlinecount = TNumber
                       then prop_set ''@odata.count'' inlinecount wrapped else wrapped)))
      | _ \<Rightarrow>
          (let inlinecount = JUndefined
           in new_ODataResult 200 ct
                (if typeof result = TObject \<and> truthy result \<and> typeof inlinecount = TNumber
                 then (case set_member result ''@odata.count'' inlinecount of
                         Inr r \<Rightarrow> r | Inl e \<Rightarrow> result)
                 else result)))"

section \<open>Vocabulary for traces\<close>

text \<open>
  The events that a list of hooks leaves when each is dispatched, and when each is
  awaited to fulfilment.
\<close>

definition dispatched :: "HookType \<Rightarrow> 'w hook list \<Rightarrow> event list" where
  "dispatched t hooks = map (\<lambda>h. HookDispatched t (hook_id h)) hooks"

definition awaited :: "HookType \<Rightarrow> 'w hook list \<Rightarrow> event list" where
  "awaited t hooks = map (\<lambda>h. HookAwaited t (hook_id h)) hooks"

text \<open>
  An outcome of \<^verbatim>\<open>_executeHooks\<close> in which the hooks were awaited one by one in the
  order of the list: either all of them were fulfilled, or the hook at some index \<open>n\<close>
  rejected with \<open>e\<close> after the \<open>n\<close> hooks before it were fulfilled, no later hook was
  called, and \<open>e\<close> is the error of the call. No hook is left dispatched.
\<close>

definition awaited_one_by_one ::
  "HookType \<Rightarrow> 'w hook list \<Rightarrow> 'w state \<Rightarrow> (error + unit) \<times> 'w state \<Rightarrow> bool" where
  "awaited_one_by_one t hooks s out =
     (case out of (r, s') \<Rightarrow>
        detached s' = detached s \<and>
        ((r = Inr () \<and> trace s' = trace s @ awaited t hooks) \<or>
         (\<exists>n e c w. n < length hooks \<and> r = Inl e
            \<and> fst (execute (hooks ! n) c w) = Rejected e
            \<and> trace s' = trace s @ awaited t (take n hooks)
                                  @ [HookRejected t (hook_id (hooks ! n)) e])))"

fun is_hook_event :: "HookType \<Rightarrow> event \<Rightarrow> bool" where
  "is_hook_event t (HookAwaited t' n) = (t' = t)"
| "is_hook_event t (HookRejected t' n e) = (t' = t)"
| "is_hook_event t (HookDispatched t' n) = (t' = t)"
| "is_hook_event t e = False"

fun is_read :: "event \<Rightarrow> bool" where
  "is_read (RepoFindOne k) = True"
| "is_read RepoFind = True"
| "is_read (RepoQuery q) = True"
| "is_read (RepoFindByIds ids) = True"
| "is_read e = False"

fun is_service_create :: "event \<Rightarrow> bool" where
  "is_service_create (ServiceCreate entity v) = True"
| "is_service_create e = False"

fun is_save :: "event \<Rightarrow> bool" where
  "is_save (RepoSave x) = True"
| "is_save e = False"

text \<open>
  \<open>hooks_ran svc t evs r\<close>: the events \<open>evs\<close> and the outcome \<open>r\<close> are those of executing
  all hooks of type \<open>t\<close> of the service, in the order of \<^verbatim>\<open>findHooks\<close>: every hook
  dispatched when \<open>t\<close> is an event type; otherwise every hook awaited to fulfilment, or
  the hooks awaited up to the first that rejects, whose error is the outcome.
\<close>

definition hooks_ran :: "('w, 'ast) service \<Rightarrow> HookType \<Rightarrow> event list \<Rightarrow> error + unit \<Rightarrow> bool" where
  "hooks_ran svc t evs r =
     (if t \<in> set (svc_HookEvents svc) then
        evs = dispatched t (svc_findHooks svc t) \<and> r = Inr ()
      else
        (evs = awaited t (svc_findHooks svc t) \<and> r = Inr ()) \<or>
        (\<exists>n e. n < length (svc_findHooks svc t) \<and> r = Inl e
           \<and> evs = awaited t (take n (svc_findHooks svc t))
                     @ [HookRejected t (hook_id (svc_findHooks svc t ! n)) e]))"

text \<open>\<open>appends P s s'\<close>: the trace of \<open>s'\<close> is the trace of \<open>s\<close> and then only \<open>P\<close> events.\<close>

definition appends :: "(event \<Rightarrow> bool) \<Rightarrow> 'w state \<Rightarrow> 'w state \<Rightarrow> bool" where
  "appends P s s' = (\<exists>tr. trace s' = trace s @ tr \<and> (\<forall>e\<in>set tr. P e))"

section \<open>A school service for the concrete runs\<close>

text \<open>
  A small instance in the style of the school model of the tests: the world is the
  table of the entity, a list of rows; hooks either pass or reject; the count
  statement answers with a string total, as the MySQL driver does.
\<close>

definition ok_hook :: "nat \<Rightarrow> (props list) hook" where
  "ok_hook n = \<lparr>hook_id = n, execute = (\<lambda>ctx w. (Fulfilled, w))\<rparr>"

definition failing_hook :: "nat \<Rightarrow> error \<Rightarrow> (props list) hook" where
  "failing_hook n e = \<lparr>hook_id = n, execute = (\<lambda>ctx w. (Rejected e, w))\<rparr>"

definition ex_orm :: "(props list) orm" where
  "ex_orm =
     \<lparr>repo_findOne = (\<lambda>key w. case filter (\<lambda>row. prop_get row ''id'' = key) w of
                                  [] \<Rightarrow> JUndefined | row # rows \<Rightarrow> JObj row),
      repo_find = (\<lambda>w. map JObj w),
      repo_query = (\<lambda>stmt w. if stmt = ''COUNT'' then [JObj [(''total'', JStr ''2'')]]
                               else map JObj w),
      repo_findByIds = (\<lambda>ids w. map JObj (filter (\<lambda>row. prop_get row ''id'' \<in> set ids) w)),
      repo_create = (\<lambda>payload. case payload of JObj ps \<Rightarrow> ps | _ \<Rightarrow> []),
      repo_insert = (\<lambda>inst w. (inst, w @ [inst])),
      repo_save = (\<lambda>inst w. (inst, w @ [inst])),
      repo_update = (\<lambda>key inst w. map (\<lambda>row. if prop_get row ''id'' = key then inst else row) w),
      repo_delete = (\<lambda>key w. filter (\<lambda>row. prop_get row ''id'' \<noteq> key) w)\<rparr>"

fun ex_hooks :: "HookType \<Rightarrow> (props list) hook list" where
  "ex_hooks beforeCreate = [ok_hook 1, ok_hook 2]"
| "ex_hooks beforeUpdate = [ok_hook 3]"
| "ex_hooks beforeDelete = [ok_hook 4]"
| "ex_hooks afterLoad = [ok_hook 5, ok_hook 6]"
| "ex_hooks afterSave = [ok_hook 7, failing_hook 8 (OtherError ''mail server down'')]"

definition ex_navigations :: "(string \<times> navigation) list" where
  "ex_navigations =
     [(''profile'', \<lparr>nav_type = ''OneToOne'', nav_entity = ''Profile'', nav_foreignKey = ''profileId''\<rparr>),
      (''classes'', \<lparr>nav_type = ''OneToMany'', nav_entity = ''Class'', nav_foreignKey = ''teacherOneId''\<rparr>),
      (''mentor'', \<lparr>nav_type = ''OneToOne'', nav_entity = ''Mentor'', nav_foreignKey = ''mentorId''\<rparr>)]"

definition ex_service :: "(props list, string) service" where
  "ex_service =
     \<lparr>svc_entityType = ''Teacher'',
      svc_keyName = ''id'',
      svc_HookEvents = [afterSave],
      svc_findHooks = ex_hooks,
      svc_orm = ex_orm,
      svc_edmType = (\<lambda>k. None),
      svc_literalConvert = (\<lambda>ty v. v),
      svc_parseQuery = (\<lambda>q. q),
      svc_buildSQL = (\<lambda>ast. (''SELECT'', if ast = ''$count=true'' then Some ''COUNT'' else None)),
      svc_parseInt = (\<lambda>str. JNum (foldl (\<lambda>n c. 10 * n + (of_char c - 48)) 0 str)),
      svc_navigations = ex_navigations,
      svc_targetKeyName = (\<lambda>entity. ''id''),
      svc_getType = (\<lambda>entity name. entity = ''Teacher'' \<and> name = ''profileId''),
      svc_serviceCreate = (\<lambda>entity item tx w. (Inr item, w)),
      svc_settleOrder = (\<lambda>n. [0..<n])\<rparr>"

definition ex_controller :: "(props list, string) controller" where
  "ex_controller =
     \<lparr>ctl_elementType = ''Teacher'',
      ctl_tableName = ''teacher'',
      ctl_HookEvents = [afterSave],
      ctl_findHooks = ex_hooks,
      ctl_orm = ex_orm\<lparr>repo_query :=
                 (\<lambda>stmt w. if stmt = ''select count(1) as total from teacher''
                             then [JObj [(''total'', JStr ''2'')]] else map JObj w)\<rparr>,
      ctl_entityManager = 0,
      ctl_parseQuery = (\<lambda>q. q),
      ctl_transformQueryAst =
        (\<lambda>ast. \<lparr>qp_selectedFields = [], qp_sqlQuery = [],
                  qp_count = (ast = ''$count=true''), qp_where = []\<rparr>)\<rparr>"

text \<open>The same service with a guard among its hooks that rejects every request.\<close>

definition ex_guarded_service :: "(props list, string) service" where
  "ex_guarded_service =
     ex_service\<lparr>svc_findHooks :=
       (\<lambda>t. [ok_hook 1, failing_hook 2 (OtherError ''denied''), ok_hook 3])\<rparr>"


text \<open>
  The same service next to a service of the related entity types that rejects every
  creation, and next to one in which the creation of the item named \<^verbatim>\<open>a\<close> rejects
  with \<^verbatim>\<open>a\<close>, that of \<^verbatim>\<open>b\<close> with \<^verbatim>\<open>b\<close>, and the second promise settles first.
\<close>

definition ex_refusing_service :: "(props list, string) service" where
  "ex_refusing_service =
     ex_service\<lparr>svc_serviceCreate := (\<lambda>entity item tx w. (Inl (OtherError ''refused''), w))\<rparr>"

definition ex_racing_service :: "(props list, string) service" where
  "ex_racing_service =
     ex_service\<lparr>svc_serviceCreate :=
                  (\<lambda>entity item tx w.
                     if prop_get (case item of JObj ps \<Rightarrow> ps | _ \<Rightarrow> []) ''name'' = JStr ''a''
                     then (Inl (OtherError ''a''), w)
                     else if prop_get (case item of JObj ps \<Rightarrow> ps | _ \<Rightarrow> []) ''name'' = JStr ''b''
                     then (Inl (OtherError ''b''), w)
                     else (Inr item, w)),
                svc_settleOrder := (\<lambda>n. rev [0..<n])\<rparr>"

definition ex_rows :: "props list" where
  "ex_rows = [[(''id'', JNum 1), (''name'', JStr ''Ada'')], [(''id'', JNum 2), (''name'', JStr ''Bob'')]]"

definition ex_state :: "(props list) state" where
  "ex_state = \<lparr>world = ex_rows, trace = [], detached = [], unawaited = []\<rparr>"

section \<open>Basic facts\<close>

lemma world_emit: "world (emit e s) = world s"
  by (simp add: emit_def)

lemma prop_has_del: "\<not> prop_has (prop_del k ps) k"
  by (induction ps) (auto simp: prop_has_def prop_del_def)

lemma body_new_ODataResult:
  "typeof r \<noteq> TUndefined \<Longrightarrow> body (new_ODataResult code ct r) = r"
  by (simp add: new_ODataResult_def)

lemma statusCode_new_ODataResult: "statusCode (new_ODataResult code ct r) = code"
  by (simp add: new_ODataResult_def)

section \<open>The envelope of an array result\<close>

text \<open>
  C4. For every array result \<open>r\<close>, \<^verbatim>\<open>ODataResult.Ok(r)\<close> has status code 200 and the body
  \<^verbatim>\<open>{ value: r }\<close>. The body carries \<^verbatim>\<open>@odata.count\<close>, equal to \<^verbatim>\<open>r.inlinecount\<close>,
  exactly when \<open>r\<close> has a numeric \<^verbatim>\<open>inlinecount\<close> property, and then the property is
  deleted from the array before it is wrapped.
\<close>

theorem Ok_array_envelope:
  "statusCode (Ok (JArr xs ps) ct) = 200
   \<and> body (Ok (JArr xs ps) ct) =
       (if typeof (prop_get ps ''inlinecount'') = TNumber
        then JObj [(''value'', JArr xs (prop_del ''inlinecount'' ps)),
                   (''@odata.count'', prop_get ps ''inlinecount'')]
        else JObj [(''value'', JArr xs ps)])
   \<and> \<not> prop_has (prop_del ''inlinecount'' ps) ''inlinecount''"
  by (simp add: Ok_def Let_def body_new_ODataResult statusCode_new_ODataResult prop_has_del)

theorem Ok_array_envelope_witness:
  "statusCode (Ok (JArr [JNum 1, JNum 2] [(''inlinecount'', JNum 5)]) None) = 200
   \<and> body (Ok (JArr [JNum 1, JNum 2] [(''inlinecount'', JNum 5)]) None)
       = JObj [(''value'', JArr [JNum 1, JNum 2] []), (''@odata.count'', JNum 5)]
   \<and> body (Ok (JArr [JNum 1, JNum 2] [(''inlinecount'', JStr ''5'')]) None)
       = JObj [(''value'', JArr [JNum 1, JNum 2] [(''inlinecount'', JStr ''5'')])]
   \<and> body (Ok (JArr [JNum 1, JNum 2] []) None) = JObj [(''value'', JArr [JNum 1, JNum 2] [])]"
  using Ok_array_envelope [of "[JNum 1, JNum 2]" "[(''inlinecount'', JNum 5)]" None]
    Ok_array_envelope [of "[JNum 1, JNum 2]" "[(''inlinecount'', JStr ''5'')]" None]
    Ok_array_envelope [of "[JNum 1, JNum 2]" "[]" None]
  by (simp add: prop_get_def prop_del_def)

section \<open>The upsert\<close>

text \<open>
  C8. \<^verbatim>\<open>TypedService.save(key, body)\<close> is an upsert: when the key is truthy and the
  repository finds an entity for it, save returns what \<^verbatim>\<open>update(key, body)\<close> returns; in
  every other case (a falsy key, or nothing found) it returns what \<^verbatim>\<open>create(body)\<close>
  returns. The lookup is the one repository call that save makes itself.
\<close>

theorem save_is_upsert:
  "(truthy key \<and> truthy (repo_findOne (svc_orm svc) key (world s)) \<longrightarrow>
      save svc key payload tx s = update svc key payload tx (emit (RepoFindOne key) s))
   \<and> (truthy key \<and> \<not> truthy (repo_findOne (svc_orm svc) key (world s)) \<longrightarrow>
      save svc key payload tx s = create svc payload tx (emit (RepoFindOne key) s))
   \<and> (\<not> truthy key \<longrightarrow> save svc key payload tx s = create svc payload tx s)"
  by (simp add: save_def Let_def world_emit)

theorem save_is_upsert_witness:
  "truthy (JNum 1)
   \<and> truthy (repo_findOne (svc_orm ex_service) (JNum 1) (world ex_state))
   \<and> save ex_service (JNum 1) (JObj [(''name'', JStr ''Eve'')]) None ex_state
       = update ex_service (JNum 1) (JObj [(''name'', JStr ''Eve'')]) None
           (emit (RepoFindOne (JNum 1)) ex_state)
   \<and> truthy (JNum 9)
   \<and> \<not> truthy (repo_findOne (svc_orm ex_service) (JNum 9) (world ex_state))
   \<and> save ex_service (JNum 9) (JObj [(''name'', JStr ''Eve'')]) None ex_state
       = create ex_service (JObj [(''name'', JStr ''Eve'')]) None
           (emit (RepoFindOne (JNum 9)) ex_state)
   \<and> \<not> truthy (JNum 0)
   \<and> save ex_service (JNum 0) (JObj [(''name'', JStr ''Eve'')]) None ex_state
       = create ex_service (JObj [(''name'', JStr ''Eve'')]) None ex_state"
proof -
  have found: "truthy (repo_findOne (svc_orm ex_service) (JNum 1) (world ex_state))"
    by (simp add: ex_service_def ex_orm_def ex_state_def ex_rows_def prop_get_def)
  have missing: "\<not> truthy (repo_findOne (svc_orm ex_service) (JNum 9) (world ex_state))"
    by (simp add: ex_service_def ex_orm_def ex_state_def ex_rows_def prop_get_def)
  show ?thesis
    using found missing
      save_is_upsert [of "JNum 1" ex_service ex_state "JObj [(''name'', JStr ''Eve'')]" None]
      save_is_upsert [of "JNum 9" ex_service ex_state "JObj [(''name'', JStr ''Eve'')]" None]
      save_is_upsert [of "JNum 0" ex_service ex_state "JObj [(''name'', JStr ''Eve'')]" None]
    by simp
qed

section \<open>A lookup without a key\<close>

text \<open>
  C9. \<^verbatim>\<open>TypedService.findOne\<close> called with an undefined or null key returns the empty
  object \<^verbatim>\<open>{}\<close>; it does not query the repository, executes no hook and does not throw:
  the state, with its trace, is the one it started from.
\<close>

theorem findOne_without_key:
  "key = JUndefined \<or> key = JNull \<Longrightarrow> findOne svc key tx s = (Inr (JObj []), s)"
  by (auto simp: findOne_def)

theorem findOne_without_key_witness:
  "findOne ex_service JUndefined None ex_state = (Inr (JObj []), ex_state)
   \<and> findOne ex_service JNull None ex_state = (Inr (JObj []), ex_state)"
  using findOne_without_key [of JUndefined ex_service None ex_state]
    findOne_without_key [of JNull ex_service None ex_state]
  by simp

section \<open>A hook context without a hook type\<close>

text \<open>
  C6. For every hook context whose \<^verbatim>\<open>hookType\<close> is undefined, \<^verbatim>\<open>_executeHooks\<close> (of
  \<^verbatim>\<open>TypedService\<close> and of \<^verbatim>\<open>TypedController\<close>) throws the ServerInternalError with the
  message \<^verbatim>\<open>Hook Type must be specify by controller\<close> and executes no hook: nothing is
  added to the trace, nothing is dispatched, the world is unchanged.
\<close>

theorem executeHooks_without_hookType:
  "ctx_hookType ctx = None \<Longrightarrow>
     executeHooks svc ctx s
       = (Inl (ServerInternalError ''Hook Type must be specify by controller''), s)
     \<and> executeHooks_ctl ctl ctx s
       = (Inl (ServerInternalError ''Hook Type must be specify by controller''), s)"
  by (simp add: executeHooks_def executeHooks_ctl_def Let_def)

theorem executeHooks_without_hookType_witness:
  "ctx_hookType (empty_ctx\<lparr>ctx_data := JNum 1\<rparr>) = None
   \<and> executeHooks ex_service (empty_ctx\<lparr>ctx_data := JNum 1\<rparr>) ex_state
       = (Inl (ServerInternalError ''Hook Type must be specify by controller''), ex_state)
   \<and> executeHooks_ctl ex_controller (empty_ctx\<lparr>ctx_data := JNum 1\<rparr>) ex_state
       = (Inl (ServerInternalError ''Hook Type must be specify by controller''), ex_state)"
  using executeHooks_without_hookType
    [of "empty_ctx\<lparr>ctx_data := JNum 1\<rparr>" ex_service ex_state ex_controller]
  by (simp add: empty_ctx_def)

section \<open>Events are dispatched, hooks are awaited\<close>

lemma hooks_loop_event:
  "hooks_loop handler True t ctx hooks s =
     (Inr (), s\<lparr>trace := trace s @ dispatched t hooks,
                detached := detached s @ map (\<lambda>h. (h, ctx, handler)) hooks\<rparr>)"
  by (induction hooks arbitrary: s) (simp_all add: dispatched_def)

lemma hooks_loop_awaited:
  "awaited_one_by_one t hooks s (hooks_loop handler False t ctx hooks s)"
proof (induction hooks arbitrary: s)
  case Nil
  show ?case by (simp add: awaited_one_by_one_def awaited_def)
next
  case (Cons h hs)
  obtain outc w where ex: "execute h ctx (world s) = (outc, w)" by (cases "execute h ctx (world s)")
  show ?case
  proof (cases outc)
    case Fulfilled
    let ?s1 = "s\<lparr>world := w, trace := trace s @ [HookAwaited t (hook_id h)]\<rparr>"
    from Cons.IH [of ?s1] have ih: "awaited_one_by_one t hs ?s1 (hooks_loop handler False t ctx hs ?s1)" .
    obtain r s' where out: "hooks_loop handler False t ctx hs ?s1 = (r, s')" by (cases "hooks_loop handler False t ctx hs ?s1")
    from ih out show ?thesis
      using ex Fulfilled
      apply (simp add: awaited_one_by_one_def awaited_def)
      apply (elim conjE disjE exE)
       apply simp
      apply (rule disjI2)
      subgoal for n e c w'
        by (rule exI [of _ "Suc n"]) auto
      done
  next
    case (Rejected e)
    show ?thesis
      using ex Rejected
      apply (simp add: awaited_one_by_one_def awaited_def)
      apply (metis fst_conv)
      done
  qed
qed

lemma hooks_loop_all_fulfil:
  "\<forall>h\<in>set hooks. \<forall>c w. fst (execute h c w) = Fulfilled \<Longrightarrow>
     fst (hooks_loop handler False t ctx hooks s) = Inr ()"
proof (induction hooks arbitrary: s)
  case Nil
  show ?case by simp
next
  case (Cons h hs)
  then have "fst (execute h ctx (world s)) = Fulfilled" by simp
  then obtain w where "execute h ctx (world s) = (Fulfilled, w)"
    by (cases "execute h ctx (world s)") simp
  with Cons show ?case by simp
qed






section \<open>What the operations add to the trace\<close>

lemma appends_refl: "appends P s s"
  by (simp add: appends_def)

lemma appends_same: "trace s' = trace s \<Longrightarrow> appends P s s'"
  by (simp add: appends_def)

lemma appends_trans: "appends P s s1 \<Longrightarrow> appends P s1 s2 \<Longrightarrow> appends P s s2"
  by (auto simp: appends_def)

lemma appends_event: "P e \<Longrightarrow> trace s' = trace s @ [e] \<Longrightarrow> appends P s s'"
  by (simp add: appends_def)

lemma hooks_loop_appends:
  "hooks_loop handler isEvent t ctx hooks s = (r, s') \<Longrightarrow> appends (is_hook_event t) s s'"
proof (cases isEvent)
  case True
  assume "hooks_loop handler isEvent t ctx hooks s = (r, s')"
  with True show ?thesis
    by (auto simp: hooks_loop_event appends_def dispatched_def)
next
  case False
  assume "hooks_loop handler isEvent t ctx hooks s = (r, s')"
  with False hooks_loop_awaited [of t hooks s handler ctx] show ?thesis
    by (auto simp: awaited_one_by_one_def appends_def awaited_def dest: in_set_takeD)
qed

lemma executeHooks_loop:
  "ctx_hookType ctx = Some t \<Longrightarrow>
     \<exists>c. executeHooks svc ctx s
           = hooks_loop LogToConsole (t \<in> set (svc_HookEvents svc)) t c (svc_findHooks svc t) s"
  by (auto simp: executeHooks_def Let_def)

lemma start_items_appends:
  "start_items target fk kv tx started items s = (r, s') \<Longrightarrow> appends is_service_create s s'"
proof (induction items arbitrary: started s)
  case Nil
  then show ?case by (auto simp: appends_refl)
next
  case (Cons item items)
  show ?case
  proof (cases "set_member item fk kv")
    case (Inl e)
    with Cons.prems show ?thesis by (auto intro: appends_same)
  next
    case (Inr item')
    let ?s1 = "s\<lparr>trace := trace s @ [ServiceCreate target item']\<rparr>"
    from Cons.prems Inr
    have "start_items target fk kv tx (started @ [item']) items ?s1 = (r, s')" by simp
    from Cons.IH [OF this] have a2: "appends is_service_create ?s1 s'" .
    have a1: "appends is_service_create s ?s1"
      by (rule appends_event [of _ "ServiceCreate target item'"]) simp_all
    from appends_trans [OF a1 a2] show ?thesis .
  qed
qed

lemma settle_items_trace:
  "settle_items svc target tx started order vals s = (r, s') \<Longrightarrow> trace s' = trace s"
proof (induction order arbitrary: vals s)
  case Nil
  then show ?case by auto
next
  case (Cons i order)
  show ?case
  proof (cases "i < length started")
    case False
    with Cons show ?thesis by simp
  next
    case True
    obtain r1 w where sc: "svc_serviceCreate svc target (started ! i) tx (world s) = (r1, w)"
      by (cases "svc_serviceCreate svc target (started ! i) tx (world s)")
    show ?thesis
    proof (cases r1)
      case (Inl e)
      with Cons.prems True sc show ?thesis by auto
    next
      case (Inr v)
      with Cons.prems True sc
      have "settle_items svc target tx started order (vals[i := v]) (s\<lparr>world := w\<rparr>) = (r, s')"
        by simp
      from Cons.IH [OF this] show ?thesis by simp
    qed
  qed
qed

lemma deepInsert_step_appends:
  "deepInsert_step svc tx nav acc s = (r, s') \<Longrightarrow> appends is_service_create s s'"
  by (auto simp: deepInsert_step_def Let_def appends_refl
      split: prod.splits sum.splits jsval.splits if_splits
      dest!: start_items_appends settle_items_trace
      intro: appends_event [of _ "ServiceCreate x y" for x y] appends_same
      elim: appends_trans [OF _ appends_same])

lemma deepInsert_loop_appends:
  "deepInsert_loop svc tx navs acc s = (r, s') \<Longrightarrow> appends is_service_create s s'"
proof (induction navs arbitrary: acc s)
  case Nil
  then show ?case by (simp add: appends_refl)
next
  case (Cons nav navs)
  obtain r1 s1 where st: "deepInsert_step svc tx nav acc s = (r1, s1)"
    by (cases "deepInsert_step svc tx nav acc s")
  from deepInsert_step_appends [OF st] have a1: "appends is_service_create s s1" .
  show ?case
  proof (cases r1)
    case (Inl e)
    with Cons.prems st a1 show ?thesis by simp
  next
    case (Inr acc1)
    with Cons.prems st have "deepInsert_loop svc tx navs acc1 s1 = (r, s')" by simp
    from Cons.IH [OF this] a1 show ?thesis by (blast intro: appends_trans)
  qed
qed

lemma deepInsert_appends:
  "deepInsert svc b tx s = (r, s') \<Longrightarrow> appends is_service_create s s'"
  by (simp add: deepInsert_def deepInsert_loop_appends)


section \<open>The order of hooks and repository calls\<close>

lemma executeHooks_ran:
  assumes "ctx_hookType ctx = Some t" and "executeHooks svc ctx s = (r, s')"
  shows "\<exists>evs. trace s' = trace s @ evs \<and> hooks_ran svc t evs r"
proof -
  from executeHooks_loop [OF assms(1), of svc s] obtain c
    where "executeHooks svc ctx s
             = hooks_loop LogToConsole (t \<in> set (svc_HookEvents svc)) t c (svc_findHooks svc t) s"
    by blast
  with assms(2)
  have lp: "hooks_loop LogToConsole (t \<in> set (svc_HookEvents svc)) t c (svc_findHooks svc t) s = (r, s')"
    by simp
  show ?thesis
  proof (cases "t \<in> set (svc_HookEvents svc)")
    case True
    with lp show ?thesis by (auto simp: hooks_loop_event hooks_ran_def)
  next
    case False
    with lp hooks_loop_awaited [of t "svc_findHooks svc t" s LogToConsole c]
    show ?thesis by (auto simp: awaited_one_by_one_def hooks_ran_def)
  qed
qed

lemma hooks_ran_rejected:
  "hooks_ran svc t evs (Inl e) \<Longrightarrow>
     \<exists>n. n < length (svc_findHooks svc t)
        \<and> evs = awaited t (take n (svc_findHooks svc t))
                  @ [HookRejected t (hook_id (svc_findHooks svc t ! n)) e]"
  by (auto simp: hooks_ran_def split: if_splits)

lemma hooks_ran_awaited:
  "t \<notin> set (svc_HookEvents svc) \<Longrightarrow> hooks_ran svc t evs (Inr u) \<Longrightarrow>
     evs = awaited t (svc_findHooks svc t)"
  by (auto simp: hooks_ran_def)

lemma create_trace:
  assumes "beforeCreate \<notin> set (svc_HookEvents svc)"
  shows
    "(\<exists>n e. n < length (svc_findHooks svc beforeCreate)
         \<and> fst (create svc payload tx s) = Inl e
         \<and> trace (snd (create svc payload tx s))
             = trace s @ awaited beforeCreate (take n (svc_findHooks svc beforeCreate))
                 @ [HookRejected beforeCreate (hook_id (svc_findHooks svc beforeCreate ! n)) e])
     \<or> (\<exists>mid. (\<forall>ev\<in>set mid. is_service_create ev \<or> is_save ev)
          \<and> ((\<exists>e b s0. fst (create svc payload tx s) = Inl e
                 \<and> deepInsert svc b tx s0 = (Inl e, snd (create svc payload tx s))
                 \<and> trace (snd (create svc payload tx s))
                     = trace s @ awaited beforeCreate (svc_findHooks svc beforeCreate)
                         @ RepoInsert (repo_create (svc_orm svc) (transformInboundPayload svc payload))
                         # mid)
              \<or> (\<exists>after r. hooks_ran svc afterSave after r
                 \<and> trace (snd (create svc payload tx s))
                     = trace s @ awaited beforeCreate (svc_findHooks svc beforeCreate)
                         @ RepoInsert (repo_create (svc_orm svc) (transformInboundPayload svc payload))
                         # mid @ after
                 \<and> (case r of Inl e \<Rightarrow> fst (create svc payload tx s) = Inl e
                     | Inr u \<Rightarrow> \<exists>inst. fst (create svc payload tx s) = Inr (JObj inst)))))"
proof -
  define inst where "inst = repo_create (svc_orm svc) (transformInboundPayload svc payload)"
  define ctx1 where "ctx1 = empty_ctx\<lparr>ctx_txContext := tx, ctx_hookType := Some beforeCreate,
                   ctx_data := JObj inst\<rparr>"
  let ?Hbc = "svc_findHooks svc beforeCreate"
  have ht1: "ctx_hookType ctx1 = Some beforeCreate" by (simp add: ctx1_def)
  obtain r1 s1 where e1: "executeHooks svc ctx1 s = (r1, s1)" by (cases "executeHooks svc ctx1 s")
  from executeHooks_ran [OF ht1 e1] obtain evs1
    where tr1: "trace s1 = trace s @ evs1" and ran1: "hooks_ran svc beforeCreate evs1 r1" by blast
  show ?thesis
  proof (cases r1)
    case (Inl e)
    with e1 have out: "create svc payload tx s = (Inl e, s1)"
      by (simp add: create_def Let_def inst_def ctx1_def)
    from ran1 Inl hooks_ran_rejected obtain n where "n < length ?Hbc"
      "evs1 = awaited beforeCreate (take n ?Hbc) @ [HookRejected beforeCreate (hook_id (?Hbc ! n)) e]"
      by blast
    with out tr1 show ?thesis by auto
  next
    case (Inr u)
    with e1 have e1': "executeHooks svc ctx1 s = (Inr u, s1)" by simp
    from ran1 Inr hooks_ran_awaited [OF assms] have evs1: "evs1 = awaited beforeCreate ?Hbc" by blast
    obtain inst1 w1 where ins: "repo_insert (svc_orm svc) inst (world s1) = (inst1, w1)"
      by (cases "repo_insert (svc_orm svc) inst (world s1)")
    define s1' where "s1' = s1\<lparr>world := w1, trace := trace s1 @ [RepoInsert inst]\<rparr>"
    obtain r2 s2 where d: "deepInsert svc inst1 tx s1' = (r2, s2)"
      by (cases "deepInsert svc inst1 tx s1'")
    from deepInsert_appends [OF d] obtain mid0
      where mid0: "trace s2 = trace s1' @ mid0" "\<forall>ev\<in>set mid0. is_service_create ev"
      by (auto simp: appends_def)
    have pre: "trace s1' = trace s @ awaited beforeCreate ?Hbc @ [RepoInsert inst]"
      by (simp add: s1'_def tr1 evs1)
    show ?thesis
    proof (cases r2)
      case (Inl e)
      with e1' ins d have out: "create svc payload tx s = (Inl e, s2)"
        by (simp add: create_def Let_def inst_def ctx1_def s1'_def)
      have "\<forall>ev\<in>set mid0. is_service_create ev \<or> is_save ev" using mid0(2) by blast
      moreover have "fst (create svc payload tx s) = Inl e"
        using out by simp
      moreover have "deepInsert svc inst1 tx s1' = (Inl e, snd (create svc payload tx s))"
        using out d Inl by simp
      moreover have "trace (snd (create svc payload tx s))
          = trace s @ awaited beforeCreate ?Hbc @ RepoInsert inst # mid0"
        using out mid0(1) pre by simp
      ultimately show ?thesis unfolding inst_def by blast
    next
      case (Inr p)
      obtain flag inst2 where p: "p = (flag, inst2)" by (cases p)
      obtain inst3 w3 where sv: "repo_save (svc_orm svc) inst2 (world s2) = (inst3, w3)"
        by (cases "repo_save (svc_orm svc) inst2 (world s2)")
      define s3 where "s3 = (if flag then s2\<lparr>world := w3, trace := trace s2 @ [RepoSave inst2]\<rparr> else s2)"
      define inst4 where "inst4 = (if flag then inst3 else inst2)"
      define ctx4 where "ctx4 = empty_ctx\<lparr>ctx_txContext := tx, ctx_hookType := Some afterSave,
                                       ctx_data := JObj inst4\<rparr>"
      define mid where "mid = mid0 @ (if flag then [RepoSave inst2] else [])"
      have ht4: "ctx_hookType ctx4 = Some afterSave" by (simp add: ctx4_def)
      obtain r4 s4 where e4: "executeHooks svc ctx4 s3 = (r4, s4)"
        by (cases "executeHooks svc ctx4 s3")
      from executeHooks_ran [OF ht4 e4] obtain after
        where tr4: "trace s4 = trace s3 @ after" and ran4: "hooks_ran svc afterSave after r4" by blast
      have tr3: "trace s3 = trace s @ awaited beforeCreate ?Hbc @ RepoInsert inst # mid"
        by (simp add: s3_def mid_def mid0(1) pre)
      have midp: "\<forall>ev\<in>set mid. is_service_create ev \<or> is_save ev"
        using mid0(2) by (auto simp: mid_def)
      from e1' ins d Inr p sv e4
      have out: "create svc payload tx s
                   = (case r4 of Inl e \<Rightarrow> (Inl e, s4) | Inr u \<Rightarrow> (Inr (JObj inst4), s4))"
        by (cases flag; cases r4)
           (simp_all add: create_def Let_def inst_def ctx1_def s1'_def s3_def inst4_def ctx4_def)
      then have snd_out: "snd (create svc payload tx s) = s4" by (cases r4) simp_all
      have res: "(case r4 of Inl e \<Rightarrow> fst (create svc payload tx s) = Inl e
                  | Inr u \<Rightarrow> \<exists>inst. fst (create svc payload tx s) = Inr (JObj inst))"
        using out by (cases r4) simp_all
      have "trace (snd (create svc payload tx s))
              = trace s @ awaited beforeCreate ?Hbc @ RepoInsert inst # mid @ after"
        using snd_out tr4 tr3 by simp
      with midp ran4 res show ?thesis unfolding inst_def by blast
    qed
  qed
qed


lemma update_trace:
  assumes "beforeUpdate \<notin> set (svc_HookEvents svc)"
  shows
    "(\<exists>n e. n < length (svc_findHooks svc beforeUpdate)
         \<and> fst (update svc key payload tx s) = Inl e
         \<and> trace (snd (update svc key payload tx s))
             = trace s @ awaited beforeUpdate (take n (svc_findHooks svc beforeUpdate))
                 @ [HookRejected beforeUpdate (hook_id (svc_findHooks svc beforeUpdate ! n)) e])
     \<or> (\<exists>after r. hooks_ran svc afterSave after r
          \<and> trace (snd (update svc key payload tx s))
              = trace s @ awaited beforeUpdate (svc_findHooks svc beforeUpdate)
                  @ RepoUpdate key (repo_create (svc_orm svc) (transformInboundPayload svc payload))
                  # after
          \<and> fst (update svc key payload tx s)
              = (case r of Inl e \<Rightarrow> Inl e | Inr u \<Rightarrow> Inr JUndefined))"
proof -
  define inst where "inst = repo_create (svc_orm svc) (transformInboundPayload svc payload)"
  define ctx1 where "ctx1 = empty_ctx\<lparr>ctx_txContext := tx, ctx_hookType := Some beforeUpdate,
                   ctx_data := JObj inst, ctx_key := key\<rparr>"
  define ctx2 where "ctx2 = empty_ctx\<lparr>ctx_txContext := tx, ctx_hookType := Some afterSave,
                   ctx_data := JObj inst, ctx_key := key\<rparr>"
  let ?H = "svc_findHooks svc beforeUpdate"
  have ht1: "ctx_hookType ctx1 = Some beforeUpdate" by (simp add: ctx1_def)
  have ht2: "ctx_hookType ctx2 = Some afterSave" by (simp add: ctx2_def)
  obtain r1 s1 where e1: "executeHooks svc ctx1 s = (r1, s1)" by (cases "executeHooks svc ctx1 s")
  from executeHooks_ran [OF ht1 e1] obtain evs1
    where tr1: "trace s1 = trace s @ evs1" and ran1: "hooks_ran svc beforeUpdate evs1 r1" by blast
  show ?thesis
  proof (cases r1)
    case (Inl e)
    with e1 have out: "update svc key payload tx s = (Inl e, s1)"
      by (simp add: update_def Let_def inst_def ctx1_def)
    from ran1 Inl hooks_ran_rejected obtain n where "n < length ?H"
      "evs1 = awaited beforeUpdate (take n ?H) @ [HookRejected beforeUpdate (hook_id (?H ! n)) e]"
      by blast
    with out tr1 show ?thesis by auto
  next
    case (Inr u)
    with e1 have e1': "executeHooks svc ctx1 s = (Inr u, s1)" by simp
    from ran1 Inr hooks_ran_awaited [OF assms] have evs1: "evs1 = awaited beforeUpdate ?H" by blast
    define s2 where "s2 = s1\<lparr>world := repo_update (svc_orm svc) key inst (world s1),
                          trace := trace s1 @ [RepoUpdate key inst]\<rparr>"
    obtain r3 s3 where e3: "executeHooks svc ctx2 s2 = (r3, s3)" by (cases "executeHooks svc ctx2 s2")
    from executeHooks_ran [OF ht2 e3] obtain after
      where tr3: "trace s3 = trace s2 @ after" and ran3: "hooks_ran svc afterSave after r3" by blast
    from e1' e3 have out: "update svc key payload tx s
        = (case r3 of Inl e \<Rightarrow> (Inl e, s3) | Inr u \<Rightarrow> (Inr JUndefined, s3))"
      by (cases r3) (simp_all add: update_def Let_def inst_def ctx1_def ctx2_def s2_def)
    then have "snd (update svc key payload tx s) = s3"
      and "fst (update svc key payload tx s) = (case r3 of Inl e \<Rightarrow> Inl e | Inr u \<Rightarrow> Inr JUndefined)"
      by (cases r3; simp)+
    moreover have "trace s3 = trace s @ awaited beforeUpdate ?H @ RepoUpdate key inst # after"
      by (simp add: tr3 s2_def tr1 evs1)
    ultimately show ?thesis using ran3 unfolding inst_def by auto
  qed
qed

lemma delete_trace:
  assumes "beforeDelete \<notin> set (svc_HookEvents svc)"
  shows
    "(\<exists>n e. n < length (svc_findHooks svc beforeDelete)
         \<and> fst (delete svc key tx s) = Inl e
         \<and> trace (snd (delete svc key tx s))
             = trace s @ awaited beforeDelete (take n (svc_findHooks svc beforeDelete))
                 @ [HookRejected beforeDelete (hook_id (svc_findHooks svc beforeDelete ! n)) e])
     \<or> (\<exists>after r. hooks_ran svc afterSave after r
          \<and> trace (snd (delete svc key tx s))
              = trace s @ awaited beforeDelete (svc_findHooks svc beforeDelete)
                  @ RepoDelete key # after
          \<and> fst (delete svc key tx s)
              = (case r of Inl e \<Rightarrow> Inl e | Inr u \<Rightarrow> Inr JUndefined))"
proof -
  define ctx1 where "ctx1 = empty_ctx\<lparr>ctx_txContext := tx, ctx_hookType := Some beforeDelete,
                   ctx_key := key\<rparr>"
  define ctx2 where "ctx2 = empty_ctx\<lparr>ctx_txContext := tx, ctx_hookType := Some afterSave,
                   ctx_key := key\<rparr>"
  let ?H = "svc_findHooks svc beforeDelete"
  have ht1: "ctx_hookType ctx1 = Some beforeDelete" by (simp add: ctx1_def)
  have ht2: "ctx_hookType ctx2 = Some afterSave" by (simp add: ctx2_def)
  obtain r1 s1 where e1: "executeHooks svc ctx1 s = (r1, s1)" by (cases "executeHooks svc ctx1 s")
  from executeHooks_ran [OF ht1 e1] obtain evs1
    where tr1: "trace s1 = trace s @ evs1" and ran1: "hooks_ran svc beforeDelete evs1 r1" by blast
  show ?thesis
  proof (cases r1)
    case (Inl e)
    with e1 have out: "delete svc key tx s = (Inl e, s1)"
      by (simp add: delete_def Let_def ctx1_def)
    from ran1 Inl hooks_ran_rejected obtain n where "n < length ?H"
      "evs1 = awaited beforeDelete (take n ?H) @ [HookRejected beforeDelete (hook_id (?H ! n)) e]"
      by blast
    with out tr1 show ?thesis by auto
  next
    case (Inr u)
    with e1 have e1': "executeHooks svc ctx1 s = (Inr u, s1)" by simp
    from ran1 Inr hooks_ran_awaited [OF assms] have evs1: "evs1 = awaited beforeDelete ?H" by blast
    define s2 where "s2 = s1\<lparr>world := repo_delete (svc_orm svc) key (world s1),
                          trace := trace s1 @ [RepoDelete key]\<rparr>"
    obtain r3 s3 where e3: "executeHooks svc ctx2 s2 = (r3, s3)" by (cases "executeHooks svc ctx2 s2")
    from executeHooks_ran [OF ht2 e3] obtain after
      where tr3: "trace s3 = trace s2 @ after" and ran3: "hooks_ran svc afterSave after r3" by blast
    from e1' e3 have out: "delete svc key tx s
        = (case r3 of Inl e \<Rightarrow> (Inl e, s3) | Inr u \<Rightarrow> (Inr JUndefined, s3))"
      by (cases r3) (simp_all add: delete_def Let_def ctx1_def ctx2_def s2_def)
    then have "snd (delete svc key tx s) = s3"
      and "fst (delete svc key tx s) = (case r3 of Inl e \<Rightarrow> Inl e | Inr u \<Rightarrow> Inr JUndefined)"
      by (cases r3; simp)+
    moreover have "trace s3 = trace s @ awaited beforeDelete ?H @ RepoDelete key # after"
      by (simp add: tr3 s2_def tr1 evs1)
    ultimately show ?thesis using ran3 by auto
  qed
qed

lemma findOne_trace:
  "(if key \<noteq> JUndefined \<and> key \<noteq> JNull \<and> \<not> isEmpty (repo_findOne (svc_orm svc) key (world s))
    then \<exists>after r. hooks_ran svc afterLoad after r
           \<and> trace (snd (findOne svc key tx s)) = trace s @ RepoFindOne key # after
           \<and> fst (findOne svc key tx s)
               = (case r of Inl e \<Rightarrow> Inl e
                  | Inr u \<Rightarrow> Inr (repo_findOne (svc_orm svc) key (world s)))
    else trace (snd (findOne svc key tx s))
           = trace s @ (if key \<noteq> JUndefined \<and> key \<noteq> JNull then [RepoFindOne key] else []))"
proof (cases "key \<noteq> JUndefined \<and> key \<noteq> JNull")
  case False
  then show ?thesis by (auto simp: findOne_def)
next
  case True
  define s1 where "s1 = emit (RepoFindOne key) s"
  define data where "data = repo_findOne (svc_orm svc) key (world s)"
  have w1: "world s1 = world s" by (simp add: s1_def world_emit)
  show ?thesis
  proof (cases "isEmpty data")
    case True
    with \<open>key \<noteq> JUndefined \<and> key \<noteq> JNull\<close> have "snd (findOne svc key tx s) = s1"
      by (simp add: findOne_def Let_def s1_def [symmetric] data_def w1)
    with True \<open>key \<noteq> JUndefined \<and> key \<noteq> JNull\<close> show ?thesis
      by (simp add: data_def s1_def emit_def)
  next
    case False
    define ctx1 where "ctx1 = empty_ctx\<lparr>ctx_txContext := tx, ctx_hookType := Some afterLoad,
                         ctx_data := data, ctx_entityType := Some (svc_entityType svc)\<rparr>"
    have ht1: "ctx_hookType ctx1 = Some afterLoad" by (simp add: ctx1_def)
    obtain r2 s2 where e2: "executeHooks svc ctx1 s1 = (r2, s2)" by (cases "executeHooks svc ctx1 s1")
    from executeHooks_ran [OF ht1 e2] obtain after
      where tr2: "trace s2 = trace s1 @ after" and ran2: "hooks_ran svc afterLoad after r2" by blast
    from False \<open>key \<noteq> JUndefined \<and> key \<noteq> JNull\<close> e2
    have out: "findOne svc key tx s = (case r2 of Inl e \<Rightarrow> (Inl e, s2) | Inr u \<Rightarrow> (Inr data, s2))"
      by (cases r2) (simp_all add: findOne_def Let_def s1_def [symmetric] data_def ctx1_def w1)
    then have "snd (findOne svc key tx s) = s2"
      and "fst (findOne svc key tx s) = (case r2 of Inl e \<Rightarrow> Inl e | Inr u \<Rightarrow> Inr data)"
      by (cases r2; simp)+
    moreover have "trace s2 = trace s @ RepoFindOne key # after"
      by (simp add: tr2 s1_def emit_def)
    ultimately show ?thesis
      using ran2 False \<open>key \<noteq> JUndefined \<and> key \<noteq> JNull\<close> unfolding data_def by auto
  qed
qed

lemma find_data_reads:
  "\<exists>reads. trace (snd (find_data svc q s)) = trace s @ reads \<and> reads \<noteq> []
           \<and> (\<forall>ev\<in>set reads. is_read ev)"
  by (auto simp: find_data_def Let_def emit_def split: option.splits prod.splits sum.splits)

lemma find_svc_trace:
  "(case fst (find_data svc q s) of
      Inl e \<Rightarrow> find_svc svc q tx s = find_data svc q s
    | Inr data \<Rightarrow>
        if array_length data > 0
        then \<exists>after r. hooks_ran svc afterLoad after r
               \<and> trace (snd (find_svc svc q tx s)) = trace (snd (find_data svc q s)) @ after
               \<and> fst (find_svc svc q tx s) = (case r of Inl e \<Rightarrow> Inl e | Inr u \<Rightarrow> Inr data)
        else find_svc svc q tx s = find_data svc q s)"
proof -
  obtain r1 s1 where fd: "find_data svc q s = (r1, s1)" by (cases "find_data svc q s")
  show ?thesis
  proof (cases r1)
    case (Inl e)
    with fd show ?thesis by (simp add: find_svc_def)
  next
    case (Inr data)
    show ?thesis
    proof (cases "array_length data > 0")
      case False
      with fd Inr show ?thesis by (simp add: find_svc_def)
    next
      case True
      define ctx1 where "ctx1 = empty_ctx\<lparr>ctx_txContext := tx, ctx_hookType := Some afterLoad,
                          ctx_data := data\<rparr>"
      have ht1: "ctx_hookType ctx1 = Some afterLoad" by (simp add: ctx1_def)
      obtain r2 s2 where e2: "executeHooks svc ctx1 s1 = (r2, s2)" by (cases "executeHooks svc ctx1 s1")
      from executeHooks_ran [OF ht1 e2] obtain after
        where tr2: "trace s2 = trace s1 @ after" and ran2: "hooks_ran svc afterLoad after r2" by blast
      from fd Inr True e2
      have out: "find_svc svc q tx s = (case r2 of Inl e \<Rightarrow> (Inl e, s2) | Inr u \<Rightarrow> (Inr data, s2))"
        by (cases r2) (simp_all add: find_svc_def ctx1_def)
      then have "snd (find_svc svc q tx s) = s2"
        and "fst (find_svc svc q tx s) = (case r2 of Inl e \<Rightarrow> Inl e | Inr u \<Rightarrow> Inr data)"
        by (cases r2; simp)+
      with tr2 ran2 fd Inr True show ?thesis by auto
    qed
  qed
qed


text \<open>
  C3. The hooks are invoked around each operation of \<^verbatim>\<open>TypedService\<close> in the declared
  order; the conjuncts give the trace of every execution of create, update, delete,
  findOne and find, in this order.
  \<^item> create: either a beforeCreate hook rejects, and nothing follows; or the beforeCreate
    hooks have all completed, then the ORM insert is issued, then come the creations of
    the deep insert and the ORM save that merges them; and then either the deep insert
    has thrown, or the afterSave hooks are executed.
  \<^item> update and delete: either a before-hook rejects, and nothing follows; or the
    before-hooks have all completed, then the ORM update (delete) is issued, and then
    the afterSave hooks are executed.
  \<^item> findOne: for a defined key whose lookup result is not empty, the read and then the
    afterLoad hooks; otherwise no hook.
  \<^item> find: the reads come first; when they give a non-empty array, the afterLoad hooks
    are executed after them, and otherwise there is no hook.
  The three before-types are taken not to be members of \<^verbatim>\<open>HookEvents\<close>: a member is
  dispatched and not awaited. A creation of the deep insert is an execution of create of
  its own and appears as one event.
\<close>

theorem hooks_around_operations:
  assumes "beforeCreate \<notin> set (svc_HookEvents svc)"
    and "beforeUpdate \<notin> set (svc_HookEvents svc)"
    and "beforeDelete \<notin> set (svc_HookEvents svc)"
  shows
    "((\<exists>n e. n < length (svc_findHooks svc beforeCreate)
         \<and> fst (create svc payload tx s) = Inl e
         \<and> trace (snd (create svc payload tx s))
             = trace s @ awaited beforeCreate (take n (svc_findHooks svc beforeCreate))
                 @ [HookRejected beforeCreate (hook_id (svc_findHooks svc beforeCreate ! n)) e])
     \<or> (\<exists>mid. (\<forall>ev\<in>set mid. is_service_create ev \<or> is_save ev)
          \<and> ((\<exists>e b s0. fst (create svc payload tx s) = Inl e
                 \<and> deepInsert svc b tx s0 = (Inl e, snd (create svc payload tx s))
                 \<and> trace (snd (create svc payload tx s))
                     = trace s @ awaited beforeCreate (svc_findHooks svc beforeCreate)
                         @ RepoInsert (repo_create (svc_orm svc) (transformInboundPayload svc payload))
                         # mid)
              \<or> (\<exists>after r. hooks_ran svc afterSave after r
                 \<and> trace (snd (create svc payload tx s))
                     = trace s @ awaited beforeCreate (svc_findHooks svc beforeCreate)
                         @ RepoInsert (repo_create (svc_orm svc) (transformInboundPayload svc payload))
                         # mid @ after
                 \<and> (case r of Inl e \<Rightarrow> fst (create svc payload tx s) = Inl e
                     | Inr u \<Rightarrow> \<exists>inst. fst (create svc payload tx s) = Inr (JObj inst))))))
     \<and> ((\<exists>n e. n < length (svc_findHooks svc beforeUpdate)
         \<and> fst (update svc key payload tx s) = Inl e
         \<and> trace (snd (update svc key payload tx s))
             = trace s @ awaited beforeUpdate (take n (svc_findHooks svc beforeUpdate))
                 @ [HookRejected beforeUpdate (hook_id (svc_findHooks svc beforeUpdate ! n)) e])
     \<or> (\<exists>after r. hooks_ran svc afterSave after r
          \<and> trace (snd (update svc key payload tx s))
              = trace s @ awaited beforeUpdate (svc_findHooks svc beforeUpdate)
                  @ RepoUpdate key (repo_create (svc_orm svc) (transformInboundPayload svc payload))
                  # after
          \<and> fst (update svc key payload tx s)
              = (case r of Inl e \<Rightarrow> Inl e | Inr u \<Rightarrow> Inr JUndefined)))
     \<and> ((\<exists>n e. n < length (svc_findHooks svc beforeDelete)
         \<and> fst (delete svc key tx s) = Inl e
         \<and> trace (snd (delete svc key tx s))
             = trace s @ awaited beforeDelete (take n (svc_findHooks svc beforeDelete))
                 @ [HookRejected beforeDelete (hook_id (svc_findHooks svc beforeDelete ! n)) e])
     \<or> (\<exists>after r. hooks_ran svc afterSave after r
          \<and> trace (snd (delete svc key tx s))
              = trace s @ awaited beforeDelete (svc_findHooks svc beforeDelete)
                  @ RepoDelete key # after
          \<and> fst (delete svc key tx s)
              = (case r of Inl e \<Rightarrow> Inl e | Inr u \<Rightarrow> Inr JUndefined)))
     \<and> ((if key \<noteq> JUndefined \<and> key \<noteq> JNull \<and> \<not> isEmpty (repo_findOne (svc_orm svc) key (world s))
    then \<exists>after r. hooks_ran svc afterLoad after r
           \<and> trace (snd (findOne svc key tx s)) = trace s @ RepoFindOne key # after
           \<and> fst (findOne svc key tx s)
               = (case r of Inl e \<Rightarrow> Inl e
                  | Inr u \<Rightarrow> Inr (repo_findOne (svc_orm svc) key (world s)))
    else trace (snd (findOne svc key tx s))
           = trace s @ (if key \<noteq> JUndefined \<and> key \<noteq> JNull then [RepoFindOne key] else [])))
     \<and> (\<exists>reads. trace (snd (find_data svc q s)) = trace s @ reads \<and> reads \<noteq> []
           \<and> (\<forall>ev\<in>set reads. is_read ev))
     \<and> ((case fst (find_data svc q s) of
      Inl e \<Rightarrow> find_svc svc q tx s = find_data svc q s
    | Inr data \<Rightarrow>
        if array_length data > 0
        then \<exists>after r. hooks_ran svc afterLoad after r
               \<and> trace (snd (find_svc svc q tx s)) = trace (snd (find_data svc q s)) @ after
               \<and> fst (find_svc svc q tx s) = (case r of Inl e \<Rightarrow> Inl e | Inr u \<Rightarrow> Inr data)
        else find_svc svc q tx s = find_data svc q s))"
  apply (intro conjI)
       apply (rule create_trace [OF assms(1)])
      apply (rule update_trace [OF assms(2)])
     apply (rule delete_trace [OF assms(3)])
    apply (rule findOne_trace)
   apply (rule find_data_reads)
  apply (rule find_svc_trace)
  done

theorem hooks_around_operations_witness:
  "beforeCreate \<notin> set (svc_HookEvents ex_service)
   \<and> beforeUpdate \<notin> set (svc_HookEvents ex_service)
   \<and> beforeDelete \<notin> set (svc_HookEvents ex_service)
   \<and> create ex_service (JObj [(''name'', JStr ''Eve'')]) None ex_state
       = (Inr (JObj [(''name'', JStr ''Eve'')]),
          ex_state\<lparr>world := ex_rows @ [[(''name'', JStr ''Eve'')]],
                     trace := [HookAwaited beforeCreate 1, HookAwaited beforeCreate 2,
                               RepoInsert [(''name'', JStr ''Eve'')],
                               HookDispatched afterSave 7, HookDispatched afterSave 8],
                     detached := [(ok_hook 7,
                                   empty_ctx\<lparr>ctx_entityType := Some ''Teacher'',
                                              ctx_hookType := Some afterSave,
                                              ctx_data := JObj [(''name'', JStr ''Eve'')],
                                              ctx_getService := Some ''Teacher''\<rparr>, LogToConsole),
                                  (failing_hook 8 (OtherError ''mail server down''),
                                   empty_ctx\<lparr>ctx_entityType := Some ''Teacher'',
                                              ctx_hookType := Some afterSave,
                                              ctx_data := JObj [(''name'', JStr ''Eve'')],
                                              ctx_getService := Some ''Teacher''\<rparr>, LogToConsole)]\<rparr>)
   \<and> trace (snd (update ex_service (JNum 1) (JObj [(''name'', JStr ''Eve'')]) None ex_state))
       = [HookAwaited beforeUpdate 3, RepoUpdate (JNum 1) [(''name'', JStr ''Eve'')],
          HookDispatched afterSave 7, HookDispatched afterSave 8]
   \<and> trace (snd (delete ex_service (JNum 1) None ex_state))
       = [HookAwaited beforeDelete 4, RepoDelete (JNum 1),
          HookDispatched afterSave 7, HookDispatched afterSave 8]
   \<and> trace (snd (findOne ex_service (JNum 1) None ex_state))
       = [RepoFindOne (JNum 1), HookAwaited afterLoad 5, HookAwaited afterLoad 6]
   \<and> trace (snd (find_svc ex_service (QString ''$top=1'') None ex_state))
       = [RepoQuery ''SELECT'', RepoFindByIds [JNum 1, JNum 2],
          HookAwaited afterLoad 5, HookAwaited afterLoad 6]
   \<and> trace (snd (create ex_guarded_service (JObj [(''name'', JStr ''Eve'')]) None ex_state))
       = [HookAwaited beforeCreate 1, HookRejected beforeCreate 2 (OtherError ''denied'')]"
  using hooks_around_operations
      [of ex_service "JObj [(''name'', JStr ''Eve'')]" None ex_state "JNum 1" "QString ''$top=1''"]
    hooks_around_operations
      [of ex_guarded_service "JObj [(''name'', JStr ''Eve'')]" None ex_state "JNum 1" "QString ''$top=1''"]
  by (simp add: create_def update_def delete_def findOne_def find_svc_def find_data_def
      deepInsert_def deepInsert_step_def transformInboundPayload_def
      executeHooks_def Let_def emit_def ex_service_def ex_guarded_service_def ex_orm_def
      ex_navigations_def ex_state_def ex_rows_def empty_ctx_def ok_hook_def failing_hook_def
      prop_get_def prop_has_def)

section \<open>Misconfigured navigations in a deep insert\<close>

lemma deepInsert_loop_append:
  "deepInsert_loop svc tx (pre @ rest) acc s =
     (case deepInsert_loop svc tx pre acc s of
        (Inl e, s1) \<Rightarrow> (Inl e, s1)
      | (Inr acc1, s1) \<Rightarrow> deepInsert_loop svc tx rest acc1 s1)"
proof (induction pre arbitrary: acc s)
  case Nil
  show ?case by simp
next
  case (Cons nav pre)
  show ?case
    by (cases "deepInsert_step svc tx nav acc s") (auto simp: Cons.IH split: sum.splits)
qed

lemma deepInsert_step_not_array:
  assumes "prop_has b navigationName" and "nav_type options = ''OneToMany''"
    and "\<not> isArray (prop_get b navigationName)"
  shows "deepInsert_step svc tx (navigationName, options) (flag, b) s
           = (Inl (ServerInternalError
                (''navigation property ['' @ navigationName @ ''] must be an array!'')), s)"
  using assms by (cases "prop_get b navigationName") (simp_all add: deepInsert_step_def Let_def)

lemma deepInsert_step_unresolved_fk:
  assumes "prop_has b navigationName"
    and "nav_type options \<noteq> ''OneToMany''" and "nav_type options \<noteq> ''ManyToOne''"
    and "svc_serviceCreate svc (nav_entity options) (prop_get b navigationName) tx (world s)
           = (Inr created, w)"
    and "\<not> svc_getType svc (svc_entityType svc) (nav_foreignKey options)"
    and "\<not> svc_getType svc (nav_entity options) (nav_foreignKey options)"
  shows "deepInsert_step svc tx (navigationName, options) (flag, b) s
           = (Inl (ServerInternalError
                (''fk '' @ nav_foreignKey options @ '' not existed on entity '' @
                 svc_entityType svc @ '' or '' @ nav_entity options)),
              s\<lparr>world := w,
                 trace := trace s @ [ServiceCreate (nav_entity options) (prop_get b navigationName)]\<rparr>)"
  using assms by (simp add: deepInsert_step_def Let_def)

lemma create_rethrows:
  assumes "executeHooks svc
             (empty_ctx\<lparr>ctx_txContext := tx, ctx_hookType := Some beforeCreate,
                ctx_data := JObj (repo_create (svc_orm svc) (transformInboundPayload svc payload))\<rparr>) s
           = (Inr u, s1)"
    and "repo_insert (svc_orm svc) (repo_create (svc_orm svc) (transformInboundPayload svc payload))
           (world s1) = (inst1, w1)"
    and "deepInsert svc inst1 tx
           (s1\<lparr>world := w1,
               trace := trace s1 @
                 [RepoInsert (repo_create (svc_orm svc) (transformInboundPayload svc payload))]\<rparr>)
           = (Inl e, s2)"
  shows "create svc payload tx s = (Inl e, s2)"
  using assms by (simp add: create_def Let_def)

lemma deepInsert_step_create_fails:
  assumes "prop_has b navigationName" and "nav_type options \<noteq> ''OneToMany''"
    and "svc_serviceCreate svc (nav_entity options) (prop_get b navigationName) tx (world s)
           = (Inl e, w)"
  shows "deepInsert_step svc tx (navigationName, options) (flag, b) s
           = (Inl e,
              s\<lparr>world := w,
                 trace := trace s @ [ServiceCreate (nav_entity options) (prop_get b navigationName)]\<rparr>)"
  using assms by (simp add: deepInsert_step_def Let_def)

text \<open>
  C7, as amended. During the deep insert inside create, an error thrown for an earlier
  navigation ends \<^verbatim>\<open>_deepInsert\<close> with that error. When the loop comes to a navigation
  that is present in the body: a \<^verbatim>\<open>OneToMany\<close> navigation whose value is not an array
  makes \<^verbatim>\<open>_deepInsert\<close> throw a ServerInternalError; for a navigation of another type
  the related instance is created first, and an error of that creation is the one
  thrown; when the creation succeeds and the type is neither \<^verbatim>\<open>OneToMany\<close> nor
  \<^verbatim>\<open>ManyToOne\<close>, a foreign key that exists neither on the source entity type nor on
  the target entity type makes \<^verbatim>\<open>_deepInsert\<close> throw a ServerInternalError that names
  the foreign key. \<^verbatim>\<open>create\<close> throws what \<^verbatim>\<open>_deepInsert\<close> throws (lemma
  \<open>create_rethrows\<close>).
\<close>

theorem deepInsert_misconfigured_navigation:
  assumes "svc_navigations svc = pre @ (navigationName, options) # post"
  shows
    "(deepInsert_loop svc tx pre (False, b0) s = (Inl e0, s0) \<longrightarrow>
        deepInsert svc b0 tx s = (Inl e0, s0))
     \<and> (deepInsert_loop svc tx pre (False, b0) s = (Inr (flag, b), s1)
         \<and> prop_has b navigationName \<longrightarrow>
          (nav_type options = ''OneToMany'' \<and> \<not> isArray (prop_get b navigationName) \<longrightarrow>
             deepInsert svc b0 tx s
               = (Inl (ServerInternalError
                    (''navigation property ['' @ navigationName @ ''] must be an array!'')), s1))
          \<and> (nav_type options \<noteq> ''OneToMany''
              \<and> svc_serviceCreate svc (nav_entity options) (prop_get b navigationName) tx (world s1)
                  = (Inl e, w) \<longrightarrow>
             deepInsert svc b0 tx s
               = (Inl e,
                  s1\<lparr>world := w,
                     trace := trace s1 @
                       [ServiceCreate (nav_entity options) (prop_get b navigationName)]\<rparr>))
          \<and> (nav_type options \<noteq> ''OneToMany'' \<and> nav_type options \<noteq> ''ManyToOne''
              \<and> svc_serviceCreate svc (nav_entity options) (prop_get b navigationName) tx (world s1)
                  = (Inr created, w)
              \<and> \<not> svc_getType svc (svc_entityType svc) (nav_foreignKey options)
              \<and> \<not> svc_getType svc (nav_entity options) (nav_foreignKey options) \<longrightarrow>
             deepInsert svc b0 tx s
               = (Inl (ServerInternalError
                    (''fk '' @ nav_foreignKey options @ '' not existed on entity '' @
                     svc_entityType svc @ '' or '' @ nav_entity options)),
                  s1\<lparr>world := w,
                     trace := trace s1 @
                       [ServiceCreate (nav_entity options) (prop_get b navigationName)]\<rparr>)))"
proof -
  have early: "deepInsert_loop svc tx pre (False, b0) s = (Inl e0, s0) \<Longrightarrow>
      deepInsert svc b0 tx s = (Inl e0, s0)"
    using assms by (simp add: deepInsert_def deepInsert_loop_append)
  have reach: "deepInsert_loop svc tx pre (False, b0) s = (Inr (flag, b), s1) \<Longrightarrow>
    deepInsert svc b0 tx s
      = (case deepInsert_step svc tx (navigationName, options) (flag, b) s1 of
           (Inl e, s2) \<Rightarrow> (Inl e, s2)
         | (Inr acc1, s2) \<Rightarrow> deepInsert_loop svc tx post acc1 s2)"
    using assms by (simp add: deepInsert_def deepInsert_loop_append)
  show ?thesis
    using early
    by (auto simp: reach deepInsert_step_not_array deepInsert_step_create_fails
        deepInsert_step_unresolved_fk)
qed

theorem deepInsert_misconfigured_navigation_witness:
  "svc_navigations ex_service
     = [(''profile'', \<lparr>nav_type = ''OneToOne'', nav_entity = ''Profile'', nav_foreignKey = ''profileId''\<rparr>)]
       @ (''classes'', \<lparr>nav_type = ''OneToMany'', nav_entity = ''Class'', nav_foreignKey = ''teacherOneId''\<rparr>)
       # [(''mentor'', \<lparr>nav_type = ''OneToOne'', nav_entity = ''Mentor'', nav_foreignKey = ''mentorId''\<rparr>)]
   \<and> deepInsert_loop ex_service None
        [(''profile'', \<lparr>nav_type = ''OneToOne'', nav_entity = ''Profile'', nav_foreignKey = ''profileId''\<rparr>)]
        (False, [(''name'', JStr ''Eve''), (''classes'', JStr ''c1'')]) ex_state
       = (Inr (False, [(''name'', JStr ''Eve''), (''classes'', JStr ''c1'')]), ex_state)
   \<and> prop_has [(''name'', JStr ''Eve''), (''classes'', JStr ''c1'')] ''classes''
   \<and> \<not> isArray (prop_get [(''name'', JStr ''Eve''), (''classes'', JStr ''c1'')] ''classes'')
   \<and> deepInsert ex_service [(''name'', JStr ''Eve''), (''classes'', JStr ''c1'')] None ex_state
       = (Inl (ServerInternalError ''navigation property [classes] must be an array!''), ex_state)
   \<and> fst (create ex_service (JObj [(''name'', JStr ''Eve''), (''classes'', JStr ''c1'')]) None ex_state)
       = Inl (ServerInternalError ''navigation property [classes] must be an array!'')
   \<and> deepInsert_loop ex_service None
        [(''profile'', \<lparr>nav_type = ''OneToOne'', nav_entity = ''Profile'', nav_foreignKey = ''profileId''\<rparr>),
         (''classes'', \<lparr>nav_type = ''OneToMany'', nav_entity = ''Class'', nav_foreignKey = ''teacherOneId''\<rparr>)]
        (False, [(''name'', JStr ''Eve''), (''mentor'', JObj [(''name'', JStr ''Max'')])]) ex_state
       = (Inr (False, [(''name'', JStr ''Eve''), (''mentor'', JObj [(''name'', JStr ''Max'')])]), ex_state)
   \<and> svc_serviceCreate ex_service ''Mentor'' (JObj [(''name'', JStr ''Max'')]) None (world ex_state)
       = (Inr (JObj [(''name'', JStr ''Max'')]), ex_rows)
   \<and> \<not> svc_getType ex_service (svc_entityType ex_service) ''mentorId''
   \<and> \<not> svc_getType ex_service ''Mentor'' ''mentorId''
   \<and> deepInsert ex_service [(''name'', JStr ''Eve''), (''mentor'', JObj [(''name'', JStr ''Max'')])]
        None ex_state
       = (Inl (ServerInternalError ''fk mentorId not existed on entity Teacher or Mentor''),
          ex_state\<lparr>world := ex_rows,
                     trace := [ServiceCreate ''Mentor'' (JObj [(''name'', JStr ''Max'')])]\<rparr>)
   \<and> svc_serviceCreate ex_refusing_service ''Mentor'' (JObj [(''name'', JStr ''Max'')]) None
        (world ex_state)
       = (Inl (OtherError ''refused''), ex_rows)
   \<and> deepInsert ex_refusing_service
        [(''name'', JStr ''Eve''), (''mentor'', JObj [(''name'', JStr ''Max'')])] None ex_state
       = (Inl (OtherError ''refused''),
          ex_state\<lparr>world := ex_rows,
                     trace := [ServiceCreate ''Mentor'' (JObj [(''name'', JStr ''Max'')])]\<rparr>)
   \<and> deepInsert_loop ex_refusing_service None
        [(''profile'', \<lparr>nav_type = ''OneToOne'', nav_entity = ''Profile'', nav_foreignKey = ''profileId''\<rparr>)]
        (False, [(''profile'', JObj [(''nick'', JStr ''E'')]), (''classes'', JStr ''c1'')]) ex_state
       = (Inl (OtherError ''refused''),
          ex_state\<lparr>world := ex_rows,
                     trace := [ServiceCreate ''Profile'' (JObj [(''nick'', JStr ''E'')])]\<rparr>)
   \<and> deepInsert ex_refusing_service
        [(''profile'', JObj [(''nick'', JStr ''E'')]), (''classes'', JStr ''c1'')] None ex_state
       = (Inl (OtherError ''refused''),
          ex_state\<lparr>world := ex_rows,
                     trace := [ServiceCreate ''Profile'' (JObj [(''nick'', JStr ''E'')])]\<rparr>)"
proof -
  let ?profile = "(''profile'', \<lparr>nav_type = ''OneToOne'', nav_entity = ''Profile'', nav_foreignKey = ''profileId''\<rparr>)"
  let ?classes = "\<lparr>nav_type = ''OneToMany'', nav_entity = ''Class'', nav_foreignKey = ''teacherOneId''\<rparr>"
  let ?mentor = "\<lparr>nav_type = ''OneToOne'', nav_entity = ''Mentor'', nav_foreignKey = ''mentorId''\<rparr>"
  let ?b1 = "[(''name'', JStr ''Eve''), (''classes'', JStr ''c1'')]"
  let ?b2 = "[(''name'', JStr ''Eve''), (''mentor'', JObj [(''name'', JStr ''Max'')])]"
  let ?b3 = "[(''profile'', JObj [(''nick'', JStr ''E'')]), (''classes'', JStr ''c1'')]"
  have navs1: "svc_navigations ex_service = [?profile] @ (''classes'', ?classes) # [(''mentor'', ?mentor)]"
    by (simp add: ex_service_def ex_navigations_def)
  have navs2: "svc_navigations ex_service = [?profile, (''classes'', ?classes)] @ (''mentor'', ?mentor) # []"
    by (simp add: ex_service_def ex_navigations_def)
  have navs3: "svc_navigations ex_refusing_service
                 = [?profile, (''classes'', ?classes)] @ (''mentor'', ?mentor) # []"
    by (simp add: ex_refusing_service_def ex_service_def ex_navigations_def)
  have navs4: "svc_navigations ex_refusing_service
                 = [?profile] @ (''classes'', ?classes) # [(''mentor'', ?mentor)]"
    by (simp add: ex_refusing_service_def ex_service_def ex_navigations_def)
  have reach1: "deepInsert_loop ex_service None [?profile] (False, ?b1) ex_state
                  = (Inr (False, ?b1), ex_state)"
    by (simp add: deepInsert_step_def prop_has_def)
  have reach2: "deepInsert_loop ex_service None [?profile, (''classes'', ?classes)] (False, ?b2) ex_state
                  = (Inr (False, ?b2), ex_state)"
    by (simp add: deepInsert_step_def prop_has_def)
  have reach3: "deepInsert_loop ex_refusing_service None [?profile, (''classes'', ?classes)]
                  (False, ?b2) ex_state = (Inr (False, ?b2), ex_state)"
    by (simp add: deepInsert_step_def prop_has_def)
  have early4: "deepInsert_loop ex_refusing_service None [?profile] (False, ?b3) ex_state
                  = (Inl (OtherError ''refused''),
                     ex_state\<lparr>world := ex_rows,
                                trace := [ServiceCreate ''Profile'' (JObj [(''nick'', JStr ''E'')])]\<rparr>)"
    by (simp add: deepInsert_step_def prop_has_def prop_get_def Let_def ex_refusing_service_def
        ex_service_def ex_state_def)
  have has1: "prop_has ?b1 ''classes''" and has2: "prop_has ?b2 ''mentor''"
    by (simp_all add: prop_has_def)
  have made: "svc_serviceCreate ex_service ''Mentor'' (JObj [(''name'', JStr ''Max'')]) None (world ex_state)
                = (Inr (JObj [(''name'', JStr ''Max'')]), ex_rows)"
    by (simp add: ex_service_def ex_state_def)
  have refused: "svc_serviceCreate ex_refusing_service ''Mentor'' (JObj [(''name'', JStr ''Max'')]) None
                  (world ex_state) = (Inl (OtherError ''refused''), ex_rows)"
    by (simp add: ex_refusing_service_def ex_service_def ex_state_def)
  have nofk: "\<not> svc_getType ex_service (svc_entityType ex_service) ''mentorId''"
    "\<not> svc_getType ex_service ''Mentor'' ''mentorId''"
    by (simp_all add: ex_service_def)
  have run: "fst (create ex_service (JObj ?b1) None ex_state)
               = Inl (ServerInternalError ''navigation property [classes] must be an array!'')"
    by (simp add: create_def deepInsert_def deepInsert_step_def transformInboundPayload_def
        executeHooks_def Let_def ex_service_def ex_orm_def ex_navigations_def ex_state_def
        empty_ctx_def ok_hook_def prop_get_def prop_has_def)
  have et: "svc_entityType ex_service = ''Teacher''" by (simp add: ex_service_def)
  have tr0: "trace ex_state = []" by (simp add: ex_state_def)
  show ?thesis
    using navs1 reach1 has1 made nofk run reach2 refused reach3 early4
      deepInsert_misconfigured_navigation
        [OF navs1, where ?b0.0 = ?b1 and tx = None and s = ex_state and flag = False
           and b = ?b1 and ?s1.0 = ex_state]
      deepInsert_misconfigured_navigation
        [OF navs2, where ?b0.0 = ?b2 and tx = None and s = ex_state and flag = False
           and b = ?b2 and ?s1.0 = ex_state and created = "JObj [(''name'', JStr ''Max'')]"
           and w = ex_rows]
      deepInsert_misconfigured_navigation
        [OF navs3, where ?b0.0 = ?b2 and tx = None and s = ex_state and flag = False
           and b = ?b2 and ?s1.0 = ex_state and e = "OtherError ''refused''" and w = ex_rows]
      deepInsert_misconfigured_navigation
        [OF navs4, where ?b0.0 = ?b3 and tx = None and s = ex_state
           and ?e0.0 = "OtherError ''refused''"
           and ?s0.0 = "ex_state\<lparr>world := ex_rows,
                     trace := [ServiceCreate ''Profile'' (JObj [(''nick'', JStr ''E'')])]\<rparr>"]
    by (simp add: prop_get_def prop_has_def et tr0)
qed

text \<open>
  C7 as stated fails when the creation of a related instance is refused. The navigation
  \<^verbatim>\<open>mentor\<close> is of type \<^verbatim>\<open>OneToOne\<close> and its foreign key exists on neither entity
  type, yet \<^verbatim>\<open>_deepInsert\<close> throws the error of the creation, which runs before the
  check; and the \<^verbatim>\<open>OneToMany\<close> navigation \<^verbatim>\<open>classes\<close> holds a string, yet
  \<^verbatim>\<open>_deepInsert\<close> throws the error that the navigation \<^verbatim>\<open>profile\<close> before it met.
  Neither error is a ServerInternalError.
\<close>

theorem deepInsert_other_error_counterexample:
  "map_of (svc_navigations ex_refusing_service) ''mentor''
     = Some \<lparr>nav_type = ''OneToOne'', nav_entity = ''Mentor'', nav_foreignKey = ''mentorId''\<rparr>
   \<and> \<not> svc_getType ex_refusing_service (svc_entityType ex_refusing_service) ''mentorId''
   \<and> \<not> svc_getType ex_refusing_service ''Mentor'' ''mentorId''
   \<and> prop_has [(''name'', JStr ''Eve''), (''mentor'', JObj [(''name'', JStr ''Max'')])] ''mentor''
   \<and> deepInsert ex_refusing_service
        [(''name'', JStr ''Eve''), (''mentor'', JObj [(''name'', JStr ''Max'')])] None ex_state
       = (Inl (OtherError ''refused''),
          ex_state\<lparr>world := ex_rows,
                     trace := [ServiceCreate ''Mentor'' (JObj [(''name'', JStr ''Max'')])]\<rparr>)
   \<and> map_of (svc_navigations ex_refusing_service) ''classes''
       = Some \<lparr>nav_type = ''OneToMany'', nav_entity = ''Class'', nav_foreignKey = ''teacherOneId''\<rparr>
   \<and> prop_has [(''profile'', JObj [(''nick'', JStr ''E'')]), (''classes'', JStr ''c1'')] ''classes''
   \<and> \<not> isArray (prop_get [(''profile'', JObj [(''nick'', JStr ''E'')]), (''classes'', JStr ''c1'')]
                   ''classes'')
   \<and> deepInsert ex_refusing_service
        [(''profile'', JObj [(''nick'', JStr ''E'')]), (''classes'', JStr ''c1'')] None ex_state
       = (Inl (OtherError ''refused''),
          ex_state\<lparr>world := ex_rows,
                     trace := [ServiceCreate ''Profile'' (JObj [(''nick'', JStr ''E'')])]\<rparr>)"
  by (simp add: deepInsert_def deepInsert_step_def Let_def prop_has_def prop_get_def
      ex_refusing_service_def ex_service_def ex_navigations_def ex_state_def)

text \<open>
  \<^verbatim>\<open>Promise.all\<close> rejects with the rejection that comes first in time: both creations
  below are refused, the second promise settles first, and its error is the one thrown
  while the first creation is left running.
\<close>

lemma deepInsert_earliest_rejection:
  "deepInsert ex_racing_service
     [(''classes'', JArr [JObj [(''name'', JStr ''a'')], JObj [(''name'', JStr ''b'')]] [])]
     None ex_state
   = (Inl (OtherError ''b''),
      ex_state\<lparr>trace := [ServiceCreate ''Class'' (JObj [(''name'', JStr ''a''), (''teacherOneId'', JUndefined)]),
                           ServiceCreate ''Class'' (JObj [(''name'', JStr ''b''), (''teacherOneId'', JUndefined)])],
                 unawaited := [(''Class'', JObj [(''name'', JStr ''a''), (''teacherOneId'', JUndefined)], None)]\<rparr>)"
  by (simp add: deepInsert_def deepInsert_step_def Let_def prop_has_def prop_get_def settle_order_def
      ex_racing_service_def ex_service_def ex_navigations_def ex_state_def ex_rows_def)

section \<open>Looking up one entity\<close>

lemma findOne_not_found:
  assumes "key \<noteq> JUndefined" and "key \<noteq> JNull"
    and "isEmpty (repo_findOne (svc_orm svc) key (world s))"
  shows "findOne svc key tx s
           = (Inl (ResourceNotFoundError (svc_entityType svc) key), emit (RepoFindOne key) s)"
  using assms by (simp add: findOne_def Let_def world_emit)

text \<open>
  C1. For every defined key, findOne throws a ResourceNotFoundError when the lookup
  result is empty, and returns the entity after executing the afterLoad hooks when
  there is one. \<^verbatim>\<open>TypedService.findOne\<close> does so (lemmas \<open>findOne_not_found\<close> and
  \<open>findOne_trace\<close>). \<^verbatim>\<open>TypedController.findOne\<close> does not throw: for the defined key
  7, which no row of the table has, the lookup result is empty, the afterLoad hooks are
  executed on undefined and undefined is returned, where the service throws.
\<close>

theorem findOne_ctl_returns_undefined:
  "JNum 7 \<noteq> JUndefined \<and> JNum 7 \<noteq> JNull
   \<and> isEmpty (repo_findOne (ctl_orm ex_controller) (JNum 7) (world ex_state))
   \<and> findOne_ctl ex_controller (JNum 7) None ex_state
       = (Inr JUndefined,
          ex_state\<lparr>trace := [RepoFindOne (JNum 7), HookAwaited afterLoad 5, HookAwaited afterLoad 6]\<rparr>)
   \<and> findOne ex_service (JNum 7) None ex_state
       = (Inl (ResourceNotFoundError ''Teacher'' (JNum 7)),
          ex_state\<lparr>trace := [RepoFindOne (JNum 7)]\<rparr>)"
  by (simp add: findOne_ctl_def findOne_def executeHooks_ctl_def Let_def emit_def
      ex_controller_def ex_service_def ex_orm_def
      ex_state_def ex_rows_def empty_ctx_def ok_hook_def prop_get_def)

section \<open>The inline count\<close>

lemma find_data_inline_count:
  assumes "parsed_query (svc_parseQuery svc) q = Some ast"
    and "svc_buildSQL svc ast = (queryStatement, countStatement)"
    and "map_ids (repo_query (svc_orm svc) queryStatement (world s)) = Inr ids"
  shows
    "(requested_count countStatement = Some c
        \<and> first_total (repo_query (svc_orm svc) c (world s)) = Inr tot \<longrightarrow>
      find_data svc q s
        = (Inr (JArr (repo_findByIds (svc_orm svc) ids (world s))
                  [(''inlinecount'', (case tot of JStr str \<Rightarrow> svc_parseInt svc str | _ \<Rightarrow> tot))]),
           s\<lparr>trace := trace s @ [RepoQuery queryStatement, RepoFindByIds ids, RepoQuery c]\<rparr>))
     \<and> (requested_count countStatement = None \<longrightarrow>
      find_data svc q s
        = (Inr (JArr (repo_findByIds (svc_orm svc) ids (world s)) []),
           s\<lparr>trace := trace s @ [RepoQuery queryStatement, RepoFindByIds ids]\<rparr>))"
  using assms by (simp add: find_data_def Let_def emit_def)

text \<open>
  C5. When an inline count is requested, find runs the count query and attaches the
  total to the result array as \<^verbatim>\<open>inlinecount\<close>, parsing a string total to an integer;
  without the request there is no count query and no \<^verbatim>\<open>inlinecount\<close>.
  \<^verbatim>\<open>TypedService.find\<close> does so (lemma \<open>find_data_inline_count\<close>).
  \<^verbatim>\<open>TypedController.find\<close> attaches the total as the driver returned it: on the count
  query below the total is the string \<^verbatim>\<open>'2'\<close>, the array gets that string, and
  \<^verbatim>\<open>ODataResult.Ok\<close>, which takes only a number, then leaves \<^verbatim>\<open>@odata.count\<close> out.
\<close>

theorem find_ctl_keeps_string_total:
  "find_ctl ex_controller (QString ''$count=true'') None ex_state
     = (Inr (JArr (map JObj ex_rows) [(''inlinecount'', JStr ''2'')]),
        ex_state\<lparr>trace := [RepoQuery ''select * from teacher ;'',
                             RepoQuery ''select count(1) as total from teacher'',
                             HookAwaited afterLoad 5, HookAwaited afterLoad 6]\<rparr>)
   \<and> body (Ok (JArr (map JObj ex_rows) [(''inlinecount'', JStr ''2'')]) None)
       = JObj [(''value'', JArr (map JObj ex_rows) [(''inlinecount'', JStr ''2'')])]
   \<and> fst (find_svc ex_service (QString ''$count=true'') None ex_state)
       = Inr (JArr (map JObj ex_rows) [(''inlinecount'', JNum 2)])"
  by (simp add: find_ctl_def find_data_ctl_def find_svc_def find_data_def
      executeHooks_def executeHooks_ctl_def Let_def emit_def
      ex_service_def ex_controller_def ex_orm_def ex_state_def ex_rows_def empty_ctx_def
      ok_hook_def prop_get_def Ok_def new_ODataResult_def)

section \<open>One controller for an entity\<close>

text \<open>
  C10. The registry maps an entity to at most one controller: \<^verbatim>\<open>registerController\<close>
  throws an Error when the entity already has a controller, and leaves the registry as
  it was; otherwise it adds the mapping. No call changes the controller an entity
  already has, and \<^verbatim>\<open>getEntityController\<close> returns the instance of the registered
  controller.
\<close>

theorem registry_one_controller_per_entity:
  "(entityControllers entity \<noteq> None \<longrightarrow>
      registerController entity c entityControllers =
        (Inl (Error ''the controller has been generated for entity. (one entity - one controller)''),
         entityControllers))
   \<and> (entityControllers entity = None \<longrightarrow>
      registerController entity c entityControllers = (Inr (), entityControllers(entity \<mapsto> c)))
   \<and> (entityControllers entity = Some c0 \<longrightarrow>
      snd (registerController e2 c2 entityControllers) entity = Some c0)
   \<and> (entityControllers entity = Some c0 \<longrightarrow>
      getEntityController inst entity entityControllers = inst (Some c0))"
  by (simp add: registerController_def getEntityController_def)

theorem registry_one_controller_per_entity_witness:
  "registerController (1::nat) ''TeacherController'' Map.empty
     = (Inr (), [1 \<mapsto> ''TeacherController''])
   \<and> registerController (1::nat) ''OtherController'' [1 \<mapsto> ''TeacherController'']
     = (Inl (Error ''the controller has been generated for entity. (one entity - one controller)''),
        [1 \<mapsto> ''TeacherController''])
   \<and> snd (registerController (2::nat) ''ClassController'' [1 \<mapsto> ''TeacherController'']) 1
     = Some ''TeacherController''
   \<and> getEntityController (\<lambda>c. c) (1::nat) [1 \<mapsto> ''TeacherController'']
     = Some ''TeacherController''"
  using registry_one_controller_per_entity [of "Map.empty" "1::nat" "''TeacherController''"]
    registry_one_controller_per_entity
      [of "[1 \<mapsto> ''TeacherController'']" "1::nat" "''OtherController''" "''TeacherController''"
          "2::nat" "''ClassController''" "\<lambda>c. c"]
  by simp

end
